theory Spec2Isabelle
  imports Main "HOL-Library.Sublist"
begin

section \<open>Errors\<close>

text \<open>
  Every \<^verbatim>\<open>throw\<close> of the two source files is a constructor. \<open>NullPropertyAccess\<close> is the
  TypeError that JavaScript raises for \<^verbatim>\<open>selectedSectionIndexes!.startIndex\<close> when the
  value is null.
\<close>

datatype error =
    FormatExpansionOverflow
  | EmptyToken
  | MissingMaxDigitNumber string
  | UnsupportedSection
  | NullPropertyAccess

section \<open>The calendar adapter and the other external collaborators\<close>

datatype FieldSectionType =
  Year | Month | Day | WeekDay | Hours | Minutes | Seconds | Meridiem | Empty

datatype FieldSectionContentType = Digit | DigitWithLetter | Letter

datatype FormatDensity = Dense | Spacious

text \<open>
  The adapter (\<^verbatim>\<open>utils\<close>) is an interface; the model takes it as a record of functions.
  \<open>date\<close> is \<^verbatim>\<open>utils.date(undefined)\<close> and \<^verbatim>\<open>utils.date(undefined, timezone)\<close>: the reading
  of the clock at the time of the call, for no timezone or for the given one.
  \<open>escapedCharacters\<close> is the pair (start, end); both are taken to be single characters
  that stand for themselves after a backslash in a regular expression.
  \<open>formatTokenMap\<close> holds the keys of the token map in the order of \<^verbatim>\<open>Object.keys\<close>; the keys
  are taken to be free of regular-expression operators. The values of the map are read by
  \<^verbatim>\<open>getDateSectionConfigFromFormatToken\<close> only.
  \<open>isValid\<close> and \<open>parse\<close> work on nullable dates (\<open>None\<close> is \<^verbatim>\<open>null\<close>).
\<close>

record 'date MuiPickersAdapter =
  expandFormat :: "string \<Rightarrow> string"
  escapedCharacters :: "char \<times> char"
  formatTokenMap :: "string list"
  formatByString :: "'date \<Rightarrow> string \<Rightarrow> string"
  date :: "string option \<Rightarrow> 'date"
  isValid :: "'date option \<Rightarrow> bool"
  parse :: "string \<Rightarrow> string \<Rightarrow> 'date option"
  getYear :: "'date \<Rightarrow> int"
  getMonth :: "'date \<Rightarrow> int"
  getDate :: "'date \<Rightarrow> int"
  getHours :: "'date \<Rightarrow> int"
  getMinutes :: "'date \<Rightarrow> int"
  getSeconds :: "'date \<Rightarrow> int"
  setYear :: "'date \<Rightarrow> int \<Rightarrow> 'date"
  setMonth :: "'date \<Rightarrow> int \<Rightarrow> 'date"
  setDate :: "'date \<Rightarrow> int \<Rightarrow> 'date"
  setHours :: "'date \<Rightarrow> int \<Rightarrow> 'date"
  setMinutes :: "'date \<Rightarrow> int \<Rightarrow> 'date"
  setSeconds :: "'date \<Rightarrow> int \<Rightarrow> 'date"

text \<open>The placeholder functions of the locale text; each argument object is curried.\<close>

record PickersLocaleText =
  fieldYearPlaceholder :: "nat \<Rightarrow> string \<Rightarrow> string"
  fieldMonthPlaceholder :: "FieldSectionContentType \<Rightarrow> string \<Rightarrow> string"
  fieldDayPlaceholder :: "string \<Rightarrow> string"
  fieldWeekDayPlaceholder :: "FieldSectionContentType \<Rightarrow> string \<Rightarrow> string"
  fieldHoursPlaceholder :: "string \<Rightarrow> string"
  fieldMinutesPlaceholder :: "string \<Rightarrow> string"
  fieldSecondsPlaceholder :: "string \<Rightarrow> string"
  fieldMeridiemPlaceholder :: "string \<Rightarrow> string"

text \<open>The parameter object of the parser.\<close>

record 'date BuildSectionsFromFormatParams =
  utils :: "'date MuiPickersAdapter"
  format :: string
  formatDensity :: FormatDensity
  isRTL :: bool
  timezone :: string
  shouldRespectLeadingZeros :: bool
  localeText :: PickersLocaleText
  localizedDigits :: "string list"
  date :: "'date option"
  enableAccessibleFieldDOMStructure :: bool

section \<open>The format parser\<close>

text \<open>
  A section is the spread of its configuration followed by the fields that
  \<^verbatim>\<open>createSection\<close> adds, so the section record extends the configuration record.
\<close>

record SectionConfig =
  type :: FieldSectionType
  contentType :: FieldSectionContentType
  maxLength :: "nat option"

record FieldSection = SectionConfig +
  format :: string
  "value" :: string
  placeholder :: string
  hasLeadingZerosInFormat :: bool
  hasLeadingZerosInInput :: bool
  startSeparator :: string
  endSeparator :: string
  modified :: bool

text \<open>
  The five helpers that the parser imports from \<^verbatim>\<open>useField.utils\<close> are not among the
  sources; the parser takes them as parameters and they are assumed to return.
\<close>

record 'date FieldUtils =
  getDateSectionConfigFromFormatToken :: "'date MuiPickersAdapter \<Rightarrow> string \<Rightarrow> SectionConfig"
  doesSectionFormatHaveLeadingZeros ::
    "'date MuiPickersAdapter \<Rightarrow> string \<Rightarrow> FieldSectionContentType \<Rightarrow> FieldSectionType \<Rightarrow> string \<Rightarrow> bool"
  cleanLeadingZeros :: "string \<Rightarrow> nat \<Rightarrow> string"
  applyLocalizedDigits :: "string \<Rightarrow> string list \<Rightarrow> string"
  removeLocalizedDigits :: "string \<Rightarrow> string list \<Rightarrow> string"

subsection \<open>expandFormat\<close>

text \<open>
  The \<^verbatim>\<open>while\<close> loop of \<^verbatim>\<open>expandFormat\<close>; the counter strictly decreases and the loop
  throws once it is negative, which bounds the recursion.
\<close>

function expandFormat_loop ::
  "(string \<Rightarrow> string) \<Rightarrow> int \<Rightarrow> string \<Rightarrow> string \<Rightarrow> error + string" where
  "expandFormat_loop expand formatExpansionOverflow prevFormat nextFormat =
     (if nextFormat \<noteq> prevFormat then
        (let prevFormat' = nextFormat;
             nextFormat' = expand prevFormat';
             formatExpansionOverflow' = formatExpansionOverflow - 1
         in if formatExpansionOverflow' < 0 then Inl FormatExpansionOverflow
            else expandFormat_loop expand formatExpansionOverflow' prevFormat' nextFormat')
      else Inr nextFormat)"
  by pat_completeness auto
termination
  by (relation "measure (\<lambda>(expand, formatExpansionOverflow, prevFormat, nextFormat).
        nat formatExpansionOverflow)") auto

declare expandFormat_loop.simps [simp del]

definition expandFormat :: "'date BuildSectionsFromFormatParams \<Rightarrow> error + string" where
  "expandFormat params =
     (let utils = BuildSectionsFromFormatParams.utils params;
          format = BuildSectionsFromFormatParams.format params
      in expandFormat_loop (MuiPickersAdapter.expandFormat utils) 10 format
           (MuiPickersAdapter.expandFormat utils format))"

subsection \<open>getEscapedPartsFromFormat\<close>

text \<open>
  The regular expression is \<^verbatim>\<open>(\s[^\e]*\e)+\<close> for the start character \<open>s\<close> and the end
  character \<open>e\<close>, run with \<^verbatim>\<open>exec\<close> and the global flag. One group is a start
  character, the characters up to the next end character, and that end character; a match is
  a maximal run of adjacent groups, found at the leftmost start character that has an end
  character after it. Parts are pairs (start, end) of indexes, both inclusive.
\<close>

type_synonym FormatEscapedParts = "(nat \<times> nat) list"

definition indexOfFrom :: "char \<Rightarrow> string \<Rightarrow> nat \<Rightarrow> nat option" where
  "indexOfFrom c s i = List.find (\<lambda>j. s ! j = c) [i..<length s]"

function lastGroupEnd :: "char \<Rightarrow> char \<Rightarrow> string \<Rightarrow> nat \<Rightarrow> nat" where
  "lastGroupEnd startChar endChar s q =
     (if q + 1 < length s \<and> s ! (q + 1) = startChar then
        (case indexOfFrom endChar s (q + 2) of
           None \<Rightarrow> q
         | Some q' \<Rightarrow> lastGroupEnd startChar endChar s q')
      else q)"
  by pat_completeness auto
termination
  by (relation "measure (\<lambda>(startChar, endChar, s, q). length s - q)")
     (auto simp: indexOfFrom_def find_Some_iff)

declare lastGroupEnd.simps [simp del]

function escapedParts_loop ::
  "char \<Rightarrow> char \<Rightarrow> string \<Rightarrow> nat \<Rightarrow> FormatEscapedParts \<Rightarrow> FormatEscapedParts" where
  "escapedParts_loop startChar endChar expandedFormat lastIndex escapedParts =
     (case indexOfFrom startChar expandedFormat lastIndex of
        None \<Rightarrow> escapedParts
      | Some matchIndex \<Rightarrow>
          (case indexOfFrom endChar expandedFormat (matchIndex + 1) of
             None \<Rightarrow> escapedParts
           | Some q \<Rightarrow>
               (let lastIndex' = lastGroupEnd startChar endChar expandedFormat q + 1
                in escapedParts_loop startChar endChar expandedFormat lastIndex'
                     (escapedParts @ [(matchIndex, lastIndex' - 1)]))))"
  by pat_completeness auto
termination
proof (relation "measure (\<lambda>(startChar, endChar, expandedFormat, lastIndex, escapedParts).
        Suc (length expandedFormat) - lastIndex)")
  show "wf (measure (\<lambda>(startChar, endChar, expandedFormat, lastIndex, escapedParts).
        Suc (length expandedFormat) - lastIndex))" by simp
next
  fix startChar endChar :: char and expandedFormat :: string and lastIndex :: nat
    and escapedParts :: FormatEscapedParts and matchIndex q lastIndex'
  assume m: "indexOfFrom startChar expandedFormat lastIndex = Some matchIndex"
    and q: "indexOfFrom endChar expandedFormat (matchIndex + 1) = Some q"
    and l: "lastIndex' = lastGroupEnd startChar endChar expandedFormat q + 1"
  have bounds: "q \<le> lastGroupEnd startChar endChar expandedFormat q
      \<and> lastGroupEnd startChar endChar expandedFormat q < length expandedFormat"
    if "q < length expandedFormat" for q
    using that
  proof (induction startChar endChar expandedFormat q rule: lastGroupEnd.induct)
    case (1 startChar endChar s q)
    show ?case
    proof (cases "q + 1 < length s \<and> s ! (q + 1) = startChar")
      case False
      then show ?thesis using "1.prems" by (subst (1 2) lastGroupEnd.simps) auto
    next
      case True
      show ?thesis
      proof (cases "indexOfFrom endChar s (q + 2)")
        case None
        then show ?thesis using True "1.prems" by (subst (1 2) lastGroupEnd.simps) auto
      next
        case (Some q')
        then have "q + 2 \<le> q'" "q' < length s"
          by (auto simp: indexOfFrom_def find_Some_iff)
        with "1.IH" [OF True Some] have "q' \<le> lastGroupEnd startChar endChar s q'"
          "lastGroupEnd startChar endChar s q' < length s" by auto
        then show ?thesis using True Some \<open>q + 2 \<le> q'\<close>
          by (subst (1 2) lastGroupEnd.simps) auto
      qed
    qed
  qed
  from m have m': "lastIndex \<le> matchIndex" by (auto simp: indexOfFrom_def find_Some_iff)
  from q have q': "matchIndex + 1 \<le> q" "q < length expandedFormat"
    by (auto simp: indexOfFrom_def find_Some_iff)
  show "((startChar, endChar, expandedFormat, lastIndex',
          escapedParts @ [(matchIndex, lastIndex' - 1)]),
         (startChar, endChar, expandedFormat, lastIndex, escapedParts))
        \<in> measure (\<lambda>(startChar, endChar, expandedFormat, lastIndex, escapedParts).
             Suc (length expandedFormat) - lastIndex)"
    using bounds [OF q'(2)] m' q'(1) l by auto
qed
declare escapedParts_loop.simps [simp del]

definition getEscapedPartsFromFormat ::
  "'date BuildSectionsFromFormatParams \<Rightarrow> string \<Rightarrow> FormatEscapedParts" where
  "getEscapedPartsFromFormat params expandedFormat =
     (let (startChar, endChar) =
            escapedCharacters (BuildSectionsFromFormatParams.utils params)
      in escapedParts_loop startChar endChar expandedFormat 0 [])"

subsection \<open>getSectionPlaceholder\<close>

definition getSectionPlaceholder ::
  "'date MuiPickersAdapter \<Rightarrow> string \<Rightarrow> PickersLocaleText \<Rightarrow> SectionConfig \<Rightarrow> string \<Rightarrow> string" where
  "getSectionPlaceholder = (\<lambda>utils timezone localeText sectionConfig sectionFormat.
      case type sectionConfig of
        Year \<Rightarrow>
          fieldYearPlaceholder localeText
            (length (formatByString utils (MuiPickersAdapter.date utils (Some timezone)) sectionFormat))
            sectionFormat
      | Month \<Rightarrow> fieldMonthPlaceholder localeText (contentType sectionConfig) sectionFormat
      | Day \<Rightarrow> fieldDayPlaceholder localeText sectionFormat
      | WeekDay \<Rightarrow> fieldWeekDayPlaceholder localeText (contentType sectionConfig) sectionFormat
      | Hours \<Rightarrow> fieldHoursPlaceholder localeText sectionFormat
      | Minutes \<Rightarrow> fieldMinutesPlaceholder localeText sectionFormat
      | Seconds \<Rightarrow> fieldSecondsPlaceholder localeText sectionFormat
      | Meridiem \<Rightarrow> fieldMeridiemPlaceholder localeText sectionFormat
      | Empty \<Rightarrow> sectionFormat)"

subsection \<open>createSection\<close>

definition createSection ::
  "'date FieldUtils \<Rightarrow> 'date BuildSectionsFromFormatParams \<Rightarrow> 'date \<Rightarrow> string \<Rightarrow> string
     \<Rightarrow> error + FieldSection" where
  "createSection = (\<lambda>H params now token startSeparator.
      let utils = BuildSectionsFromFormatParams.utils params;
          timezone = BuildSectionsFromFormatParams.timezone params;
          date = BuildSectionsFromFormatParams.date params;
          localizedDigits = BuildSectionsFromFormatParams.localizedDigits params
      in if token = [] then Inl EmptyToken
         else
           (let sectionConfig = getDateSectionConfigFromFormatToken H utils token;
                hasLeadingZerosInFormat =
                  doesSectionFormatHaveLeadingZeros H utils timezone
                    (contentType sectionConfig) (type sectionConfig) token;
                hasLeadingZerosInInput =
                  (if shouldRespectLeadingZeros params then hasLeadingZerosInFormat
                   else contentType sectionConfig = Digit);
                isValidDate = (date \<noteq> None \<and> isValid utils date);
                sectionValue =
                  (case date of
                     Some d \<Rightarrow> if isValidDate then formatByString utils d token else []
                   | None \<Rightarrow> []);
                section = (\<lambda>maxLength sectionValue.
                  \<lparr>type = type sectionConfig,
                   contentType = contentType sectionConfig,
                   maxLength = maxLength,
                   format = token,
                   value = sectionValue,
                   placeholder =
                     getSectionPlaceholder utils timezone (localeText params) sectionConfig token,
                   hasLeadingZerosInFormat = hasLeadingZerosInFormat,
                   hasLeadingZerosInInput = hasLeadingZerosInInput,
                   startSeparator = startSeparator,
                   endSeparator = [],
                   modified = False\<rparr>)
            in if hasLeadingZerosInInput then
                 (if hasLeadingZerosInFormat then
                    Inr (section
                      (Some (if sectionValue = [] then length (formatByString utils now token)
                             else length sectionValue))
                      sectionValue)
                  else
                    (case maxLength sectionConfig of
                       None \<Rightarrow> Inl (MissingMaxDigitNumber token)
                     | Some configMaxLength \<Rightarrow>
                         Inr (section (Some configMaxLength)
                           (if isValidDate then
                              applyLocalizedDigits H
                                (cleanLeadingZeros H
                                   (removeLocalizedDigits H sectionValue localizedDigits)
                                   configMaxLength)
                                localizedDigits
                            else sectionValue))))
               else Inr (section None sectionValue)))"

subsection \<open>buildSections\<close>

text \<open>
  \<^verbatim>\<open>char.match(/([A-Za-z]+)/)\<close> on the one character \<^verbatim>\<open>expandedFormat[i]\<close>.
\<close>

definition isLetter :: "char \<Rightarrow> bool" where
  "isLetter c =
     (let n = (of_char c :: nat) in (65 \<le> n \<and> n \<le> 90) \<or> (97 \<le> n \<and> n \<le> 122))"

text \<open>
  \<^verbatim>\<open>isTokenStartRegExp\<close> is \<^verbatim>\<open>^(k1|k2|...)\<close> over the keys of the token map, longest
  first (the sort is stable), with the global flag. \<open>tokenStartLength\<close> is the length that
  the expression matches at index 0: the first alternative that is a prefix, and the empty
  match when there is no key at all. \<open>isTokenStartRegExp_test\<close> is \<^verbatim>\<open>test\<close> with the state
  \<^verbatim>\<open>lastIndex\<close> written out: the search starts at \<^verbatim>\<open>lastIndex\<close>, the anchor only matches at
  index 0, a success stores the end of the match and a failure stores 0.
\<close>

definition sortedTokens :: "string list \<Rightarrow> string list" where
  "sortedTokens keys = sort_key (\<lambda>k. - int (length k)) keys"

definition tokenStartLength :: "string list \<Rightarrow> string \<Rightarrow> nat option" where
  "tokenStartLength keys s =
     (if keys = [] then Some 0
      else map_option length (List.find (\<lambda>k. prefix k s) (sortedTokens keys)))"

definition isTokenStartRegExp_test :: "string list \<Rightarrow> nat \<Rightarrow> string \<Rightarrow> bool \<times> nat" where
  "isTokenStartRegExp_test keys lastIndex s =
     (if lastIndex = 0 then
        (case tokenStartLength keys s of
           Some n \<Rightarrow> (True, n)
         | None \<Rightarrow> (False, 0))
      else (False, 0))"

text \<open>
  \<^verbatim>\<open>sections[sections.length - 1].endSeparator += char\<close>, on a list that is not empty.
\<close>

definition appendToLastEndSeparator :: "FieldSection list \<Rightarrow> char \<Rightarrow> FieldSection list" where
  "appendToLastEndSeparator sections char =
     butlast sections @
       [(last sections)\<lparr>endSeparator := endSeparator (last sections) @ [char]\<rparr>]"

text \<open>
  The \<^verbatim>\<open>for\<close> loop of \<^verbatim>\<open>buildSections\<close>. Its state is the index, the sections, the two
  strings and \<^verbatim>\<open>lastIndex\<close> of the token expression. A match of length 0 (a token map with
  no key or with an empty key) leaves the index where it is, and the source loops for ever:
  the function is partial and \<open>None\<close> is the run that does not return. In the token branch
  \<^verbatim>\<open>i += lastIndex - 1\<close> and the loop's own \<^verbatim>\<open>i += 1\<close> add up to \<open>i + lastIndex\<close>.
\<close>

partial_function (option) buildSections_loop ::
  "'date FieldUtils \<Rightarrow> 'date BuildSectionsFromFormatParams \<Rightarrow> string \<Rightarrow> FormatEscapedParts
     \<Rightarrow> 'date \<Rightarrow> nat \<times> FieldSection list \<times> string \<times> string \<times> nat
     \<Rightarrow> (error + FieldSection list \<times> string \<times> string) option" where
  "buildSections_loop H params expandedFormat escapedParts now state =
     (let (i, sections, startSeparator, currentTokenValue, lastIndex) = state
      in if i < length expandedFormat then
        (let escapedPartOfCurrentChar =
               List.find (\<lambda>(start, end). start \<le> i \<and> end \<ge> i) escapedParts;
             char = expandedFormat ! i;
             isEscapedChar = (escapedPartOfCurrentChar \<noteq> None);
             potentialToken = currentTokenValue @ drop i expandedFormat;
             (regExpMatch, lastIndex') =
               isTokenStartRegExp_test
                 (formatTokenMap (BuildSectionsFromFormatParams.utils params))
                 lastIndex potentialToken
         in if \<not> isEscapedChar \<and> isLetter char \<and> regExpMatch then
              buildSections_loop H params expandedFormat escapedParts now
                (i + lastIndex', sections, startSeparator, take lastIndex' potentialToken,
                 lastIndex')
            else
              (let isEscapeBoundary =
                     (case escapedPartOfCurrentChar of
                        None \<Rightarrow> False
                      | Some (start, end) \<Rightarrow> start = i \<or> end = i)
               in if \<not> isEscapeBoundary then
                    (case (if currentTokenValue \<noteq> [] then
                             map_sum id (\<lambda>section. sections @ [section])
                               (createSection H params now currentTokenValue startSeparator)
                           else Inr sections) of
                       Inl e \<Rightarrow> Some (Inl e)
                     | Inr sections' \<Rightarrow>
                         if length sections' = 0 then
                           buildSections_loop H params expandedFormat escapedParts now
                             (i + 1, sections', startSeparator @ [char], [], lastIndex')
                         else
                           buildSections_loop H params expandedFormat escapedParts now
                             (i + 1, appendToLastEndSeparator sections' char, [], [], lastIndex'))
                  else
                    buildSections_loop H params expandedFormat escapedParts now
                      (i + 1, sections, startSeparator, currentTokenValue, lastIndex')))
      else Some (Inr (sections, startSeparator, currentTokenValue)))"

declare buildSections_loop.simps [code]

definition emptySection :: "string \<Rightarrow> FieldSection" where
  "emptySection = (\<lambda>startSeparator.
     \<lparr>type = Empty,
      contentType = Letter,
      maxLength = None,
      format = [],
      value = [],
      placeholder = [],
      hasLeadingZerosInFormat = False,
      hasLeadingZerosInInput = False,
      startSeparator = startSeparator,
      endSeparator = [],
      modified = False\<rparr>)"

definition buildSections ::
  "'date FieldUtils \<Rightarrow> 'date BuildSectionsFromFormatParams \<Rightarrow> string \<Rightarrow> FormatEscapedParts
     \<Rightarrow> (error + FieldSection list) option" where
  "buildSections H params expandedFormat escapedParts =
     (let now = MuiPickersAdapter.date (BuildSectionsFromFormatParams.utils params) None
      in case buildSections_loop H params expandedFormat escapedParts now (0, [], [], [], 0) of
           None \<Rightarrow> None
         | Some (Inl e) \<Rightarrow> Some (Inl e)
         | Some (Inr loopResult) \<Rightarrow>
             (let (sections, startSeparator, currentTokenValue) = loopResult
              in case (if currentTokenValue \<noteq> [] then
                         map_sum id (\<lambda>section. sections @ [section])
                           (createSection H params now currentTokenValue startSeparator)
                       else Inr sections) of
                   Inl e \<Rightarrow> Some (Inl e)
                 | Inr sections' \<Rightarrow>
                     Some (Inr (if length sections' = 0 \<and> length startSeparator > 0
                                then sections' @ [emptySection startSeparator]
                                else sections'))))"

subsection \<open>postProcessSections and buildSectionsFromFormat\<close>

text \<open>
  The isolates U+2069 and U+2066 are not characters of the 8-bit type \<open>char\<close>; they are
  written as their UTF-8 bytes. All other strings of the model are ASCII.
\<close>

definition popDirectionalIsolate :: string where
  "popDirectionalIsolate = [CHR 0xE2, CHR 0x81, CHR 0xA9]"

definition leftToRightIsolate :: string where
  "leftToRightIsolate = [CHR 0xE2, CHR 0x81, CHR 0xA6]"

definition cleanSeparator :: "bool \<Rightarrow> FormatDensity \<Rightarrow> string \<Rightarrow> string" where
  "cleanSeparator = (\<lambda>isRTL formatDensity separator.
      let cleanedSeparator =
            (if isRTL \<and> CHR '' '' \<in> set separator
             then popDirectionalIsolate @ separator @ leftToRightIsolate
             else separator)
      in if formatDensity = Spacious \<and> cleanedSeparator \<in> set [''/'', ''.'', ''-'']
         then '' '' @ cleanedSeparator @ '' ''
         else cleanedSeparator)"

definition postProcessSections ::
  "'date BuildSectionsFromFormatParams \<Rightarrow> FieldSection list \<Rightarrow> FieldSection list" where
  "postProcessSections params sections =
     map (\<lambda>section.
            section\<lparr>startSeparator :=
                      cleanSeparator (isRTL params) (formatDensity params) (startSeparator section),
                    endSeparator :=
                      cleanSeparator (isRTL params) (formatDensity params) (endSeparator section)\<rparr>)
         sections"

text \<open>\<^verbatim>\<open>split(' ')\<close> and \<^verbatim>\<open>join(' ')\<close>; the split of the empty string is one empty string.\<close>

fun split :: "char \<Rightarrow> string \<Rightarrow> string list" where
  "split c [] = [[]]"
| "split c (x # xs) =
     (if x = c then [] # split c xs
      else (case split c xs of
              [] \<Rightarrow> [[x]]
            | w # ws \<Rightarrow> (x # w) # ws))"

fun join :: "char \<Rightarrow> string list \<Rightarrow> string" where
  "join c [] = []"
| "join c [w] = w"
| "join c (w # ws) = w @ c # join c ws"

definition buildSectionsFromFormat ::
  "'date FieldUtils \<Rightarrow> 'date BuildSectionsFromFormatParams \<Rightarrow> (error + FieldSection list) option" where
  "buildSectionsFromFormat H params =
     (case expandFormat params of
        Inl e \<Rightarrow> Some (Inl e)
      | Inr expandedFormat0 \<Rightarrow>
          (let expandedFormat =
                 (if isRTL params \<and> enableAccessibleFieldDOMStructure params
                  then join CHR '' '' (rev (split CHR '' '' expandedFormat0))
                  else expandedFormat0);
               escapedParts = getEscapedPartsFromFormat params expandedFormat
           in case buildSections H params expandedFormat escapedParts of
                None \<Rightarrow> None
              | Some (Inl e) \<Rightarrow> Some (Inl e)
              | Some (Inr sections) \<Rightarrow> Some (Inr (postProcessSections params sections))))"

subsection \<open>Formats without a token\<close>

text \<open>
  What the loop of \<^verbatim>\<open>buildSections\<close> computes for the character at an index: the escaped
  part that holds it, and whether it is the first or the last character of that part. The
  literal text of a format is what remains without these delimiters. A format has no token
  start when no index outside the escaped parts holds a letter at which a token matches.
\<close>

definition escapedPartAt :: "FormatEscapedParts \<Rightarrow> nat \<Rightarrow> (nat \<times> nat) option" where
  "escapedPartAt escapedParts i =
     List.find (\<lambda>(start, end). start \<le> i \<and> end \<ge> i) escapedParts"

definition isEscapeBoundaryAt :: "FormatEscapedParts \<Rightarrow> nat \<Rightarrow> bool" where
  "isEscapeBoundaryAt escapedParts i =
     (case escapedPartAt escapedParts i of
        None \<Rightarrow> False
      | Some (start, end) \<Rightarrow> start = i \<or> end = i)"

definition literalTextFrom :: "string \<Rightarrow> FormatEscapedParts \<Rightarrow> nat \<Rightarrow> string" where
  "literalTextFrom expandedFormat escapedParts i =
     map (\<lambda>j. expandedFormat ! j)
       (filter (\<lambda>j. \<not> isEscapeBoundaryAt escapedParts j) [i..<length expandedFormat])"

definition hasNoTokenStart :: "string list \<Rightarrow> string \<Rightarrow> FormatEscapedParts \<Rightarrow> bool" where
  "hasNoTokenStart keys expandedFormat escapedParts =
     list_all (\<lambda>i. escapedPartAt escapedParts i \<noteq> None \<or> \<not> isLetter (expandedFormat ! i) \<or>
                   tokenStartLength keys (drop i expandedFormat) = None)
       [0..<length expandedFormat]"

text \<open>The format that \<^verbatim>\<open>buildSectionsFromFormat\<close> tokenizes, given the expanded format.\<close>

definition reorderedFormat :: "'date BuildSectionsFromFormatParams \<Rightarrow> string \<Rightarrow> string" where
  "reorderedFormat params expandedFormat =
     (if isRTL params \<and> enableAccessibleFieldDOMStructure params
      then join CHR '' '' (rev (split CHR '' '' expandedFormat))
      else expandedFormat)"

section \<open>The section state engine\<close>

subsection \<open>Data\<close>

text \<open>
  The hook is generic in the section type, \<^verbatim>\<open>TSection extends FieldSection\<close>; the model
  keeps the three fields that the hook reads and writes and leaves the rest to the
  extension of the record. \<open>dateSectionName\<close> ranges over the section types of the data
  model. \<^verbatim>\<open>undefined\<close> and \<^verbatim>\<open>null\<close> are told apart where the source writes one over
  the other.
\<close>

datatype 'a nullable = Undefined | Null | Defined 'a

record TSection =
  dateSectionName :: FieldSectionType
  "value" :: string
  edited :: bool

datatype FieldSelectedSections =
    SelectedNull
  | SelectedIndex int
  | SelectedName FieldSectionType
  | SelectedIndexes int int

record FieldSelectedSectionsIndexes =
  startIndex :: int
  endIndex :: int

record ('value, 'section) UseFieldState =
  sections :: "'section list"
  "value" :: 'value
  referenceValue :: 'value
  tempValueStrAndroid :: "string option"
  selectedSectionQuery :: "string nullable"

text \<open>
  \<open>getNewValueFromNewActiveDate\<close> returns the pair (value, referenceValue).
\<close>

record ('date, 'value) ActiveDateManager =
  activeDate :: "'date option"
  referenceActiveDate :: 'date
  getNewValueFromNewActiveDate :: "'date option \<Rightarrow> 'value \<times> 'value"

record ('date, 'value, 'section) FieldValueManager =
  getSectionsFromValue ::
    "'date MuiPickersAdapter \<Rightarrow> 'section list option \<Rightarrow> 'value \<Rightarrow> string \<Rightarrow> 'section list"
  updateReferenceValue :: "'date MuiPickersAdapter \<Rightarrow> 'value \<Rightarrow> 'value \<Rightarrow> 'value"
  getActiveDateManager ::
    "'date MuiPickersAdapter \<Rightarrow> ('value, 'section) UseFieldState \<Rightarrow> 'section
       \<Rightarrow> ('date, 'value) ActiveDateManager"
  getActiveDateSections :: "'section list \<Rightarrow> 'section \<Rightarrow> 'section list"

record ('date, 'value) ValueManager =
  emptyValue :: 'value
  areValuesEqual :: "'date MuiPickersAdapter \<Rightarrow> 'value \<Rightarrow> 'value \<Rightarrow> bool"
  getTodayValue :: "'date MuiPickersAdapter \<Rightarrow> 'value"

text \<open>
  What one render of the hook closes over: the adapter of \<^verbatim>\<open>useUtils\<close>, the parameters
  that the hook reads, and the helpers of \<^verbatim>\<open>useField.utils\<close> whose code is not among the
  sources and which are parameters here (\<open>validateSections\<close> returns whether it throws).
  The boundaries are opaque to the hook; \<open>'boundaries\<close> is their type.
  \<open>undefinedSection\<close> is no input of the hook: it stands for \<^verbatim>\<open>undefined\<close> where the
  types promise a section, which is what JavaScript reads at an index outside the array.
\<close>

record ('date, 'value, 'section, 'boundaries) UseField =
  utils :: "'date MuiPickersAdapter"
  valueManager :: "('date, 'value) ValueManager"
  fieldValueManager :: "('date, 'value, 'section) FieldValueManager"
  supportedDateSections :: "FieldSectionType list"
  format :: string
  addPositionPropertiesToSections :: "'section list \<Rightarrow> 'section list"
  clampDaySection ::
    "'date MuiPickersAdapter \<Rightarrow> 'section list \<Rightarrow> 'boundaries \<Rightarrow> string \<Rightarrow> 'section list option"
  createDateStrFromSections :: "'section list \<Rightarrow> bool \<Rightarrow> string"
  getSectionBoundaries :: "'date MuiPickersAdapter \<Rightarrow> 'boundaries"
  validateSections :: "'section list \<Rightarrow> FieldSectionType list \<Rightarrow> bool"
  undefinedSection :: 'section

record ('date, 'section, 'boundaries) UpdateSectionValueParams =
  activeSection :: 'section
  setSectionValueOnDate :: "'date \<Rightarrow> 'boundaries \<Rightarrow> 'date"
  setSectionValueOnSections :: "'boundaries \<Rightarrow> string"

text \<open>
  What an operation does outside the state: the call of \<^verbatim>\<open>onChange\<close>, of
  \<^verbatim>\<open>onSelectedSectionsChange\<close> (both optional callbacks: the event is the call, made when
  the callback is there) and of the setter of the controlled selection.
\<close>

datatype 'value effect =
    OnChange 'value
  | OnSelectedSectionsChange FieldSelectedSections
  | InnerSetSelectedSections FieldSelectedSections

subsection \<open>Derived values of a render\<close>

definition valueFromTheOutside ::
  "('date, 'value, 'section, 'boundaries) UseField \<Rightarrow> 'value option \<Rightarrow> 'value option \<Rightarrow> 'value" where
  "valueFromTheOutside hook valueProp firstDefaultValue =
     (case valueProp of
        Some v \<Rightarrow> v
      | None \<Rightarrow>
          (case firstDefaultValue of
             Some v \<Rightarrow> v
           | None \<Rightarrow> emptyValue (valueManager hook)))"

text \<open>\<^verbatim>\<open>findIndex\<close> gives -1 when no element satisfies the predicate.\<close>

definition findIndex :: "('a \<Rightarrow> bool) \<Rightarrow> 'a list \<Rightarrow> int" where
  "findIndex p xs =
     (case List.find (\<lambda>j. p (xs ! j)) [0..<length xs] of
        None \<Rightarrow> - 1
      | Some j \<Rightarrow> int j)"

definition selectedSectionIndexes ::
  "FieldSelectedSections \<Rightarrow> ('value, 'z TSection_scheme) UseFieldState
     \<Rightarrow> FieldSelectedSectionsIndexes option" where
  "selectedSectionIndexes selectedSections state =
     (case selectedSections of
        SelectedNull \<Rightarrow> None
      | SelectedIndex n \<Rightarrow> Some \<lparr>startIndex = n, endIndex = n\<rparr>
      | SelectedName name \<Rightarrow>
          (let selectedSectionIndex =
                 findIndex (\<lambda>section. dateSectionName section = name) (sections state)
           in Some \<lparr>startIndex = selectedSectionIndex, endIndex = selectedSectionIndex\<rparr>)
      | SelectedIndexes s e \<Rightarrow> Some \<lparr>startIndex = s, endIndex = e\<rparr>)"

definition initialState ::
  "('date, 'value, 'z TSection_scheme, 'boundaries) UseField \<Rightarrow> 'value
     \<Rightarrow> error + ('value, 'z TSection_scheme) UseFieldState" where
  "initialState hook valueFromTheOutside' =
     (let utils = UseField.utils hook;
          sections = getSectionsFromValue (fieldValueManager hook) utils None
                       valueFromTheOutside' (UseField.format hook)
      in if validateSections hook sections (supportedDateSections hook) then
           Inr \<lparr>sections = sections,
                value = valueFromTheOutside',
                referenceValue =
                  updateReferenceValue (fieldValueManager hook) utils valueFromTheOutside'
                    (getTodayValue (valueManager hook) utils),
                tempValueStrAndroid = None,
                selectedSectionQuery = Undefined\<rparr>
         else Inl UnsupportedSection)"

subsection \<open>Operations\<close>

text \<open>
  An operation runs in one render: \<open>state\<close> is the state that the render closed over and
  \<open>prevState\<close> is the state that the functional update of \<^verbatim>\<open>setState\<close> receives, which
  differs from \<open>state\<close> when the same operation has already queued an update. The result
  is the state after the queued updates and the effects in the order of the calls.
\<close>

definition setSelectedSections ::
  "FieldSelectedSections \<Rightarrow> ('value, 'section) UseFieldState
     \<Rightarrow> ('value, 'section) UseFieldState \<times> 'value effect list" where
  "setSelectedSections newSelectedSections prevState =
     (prevState\<lparr>selectedSectionQuery := Null\<rparr>,
      [InnerSetSelectedSections newSelectedSections,
       OnSelectedSectionsChange newSelectedSections])"

definition publishValue ::
  "('date, 'value, 'section, 'boundaries) UseField \<Rightarrow> ('value, 'section) UseFieldState
     \<Rightarrow> 'value \<times> 'value \<Rightarrow> ('value, 'section) UseFieldState
     \<Rightarrow> ('value, 'section) UseFieldState \<times> 'value effect list" where
  "publishValue = (\<lambda>hook state (value, referenceValue) prevState.
     let newSections =
           getSectionsFromValue (fieldValueManager hook) (UseField.utils hook)
             (Some (sections state)) value (UseField.format hook)
     in (prevState\<lparr>sections := newSections,
                    value := value,
                    referenceValue := referenceValue,
                    tempValueStrAndroid := None\<rparr>,
         [OnChange value]))"

text \<open>
  Reads and writes of the section array by index. Neither throws in JavaScript. A read
  outside the array gives \<^verbatim>\<open>undefined\<close>. A write at a negative index stores a property that
  is no element, so the elements stay as they are; a write at or beyond the length extends
  the array, with holes up to the index. A hole is \<open>undefinedSection\<close> here, and so is
  the \<^verbatim>\<open>undefined\<close> whose spread gives the written object no field but the two that
  \<^verbatim>\<open>setSectionValue\<close> sets.
\<close>

definition sectionAt ::
  "('date, 'value, 'section, 'boundaries) UseField \<Rightarrow> 'section list \<Rightarrow> int \<Rightarrow> 'section" where
  "sectionAt hook allSections sectionIndex =
     (if 0 \<le> sectionIndex \<and> sectionIndex < int (length allSections)
      then allSections ! nat sectionIndex
      else undefinedSection hook)"

definition writeSection ::
  "('date, 'value, 'section, 'boundaries) UseField \<Rightarrow> 'section list \<Rightarrow> int \<Rightarrow> 'section
     \<Rightarrow> 'section list" where
  "writeSection hook allSections sectionIndex newSection =
     (if 0 \<le> sectionIndex \<and> sectionIndex < int (length allSections)
      then allSections[nat sectionIndex := newSection]
      else if sectionIndex < 0 then allSections
      else allSections @
             replicate (nat sectionIndex - length allSections) (undefinedSection hook) @
             [newSection])"

definition setSectionValue ::
  "('date, 'value, 'z TSection_scheme, 'boundaries) UseField
     \<Rightarrow> ('value, 'z TSection_scheme) UseFieldState \<Rightarrow> int \<Rightarrow> string
     \<Rightarrow> 'z TSection_scheme list" where
  "setSectionValue hook state sectionIndex newSectionValue =
     (let newSections =
            writeSection hook (sections state) sectionIndex
              ((sectionAt hook (sections state) sectionIndex)
                 \<lparr>TSection.value := newSectionValue, edited := True\<rparr>)
      in addPositionPropertiesToSections hook newSections)"

definition clearValue ::
  "('date, 'value, 'section, 'boundaries) UseField \<Rightarrow> ('value, 'section) UseFieldState
     \<Rightarrow> ('value, 'section) UseFieldState \<times> 'value effect list" where
  "clearValue hook state =
     publishValue hook state (emptyValue (valueManager hook), referenceValue state) state"

text \<open>
  No step of \<^verbatim>\<open>clearActiveSection\<close> throws; its result is written with \<open>Inr\<close> to have
  the type of the results of \<^verbatim>\<open>updateSectionValue\<close>.
\<close>

definition clearActiveSection ::
  "('date, 'value, 'z TSection_scheme, 'boundaries) UseField
     \<Rightarrow> ('value, 'z TSection_scheme) UseFieldState \<Rightarrow> FieldSelectedSections
     \<Rightarrow> error + ('value, 'z TSection_scheme) UseFieldState \<times> 'value effect list" where
  "clearActiveSection hook state selectedSections =
     (case selectedSectionIndexes selectedSections state of
        None \<Rightarrow> Inr (state, [])
      | Some indexes \<Rightarrow>
          (let activeSection' = sectionAt hook (sections state) (startIndex indexes);
               activeDateManager =
                 getActiveDateManager (fieldValueManager hook) (UseField.utils hook)
                   state activeSection';
               newSections = setSectionValue hook state (startIndex indexes) [];
               (newValue, newReferenceValue) =
                 getNewValueFromNewActiveDate activeDateManager None
           in Inr (state\<lparr>sections := newSections,
                          value := newValue,
                          referenceValue := newReferenceValue\<rparr>,
                   [])))"

text \<open>
  Modelled from the spec: \<^verbatim>\<open>applySectionValueToDate\<close> is imported from
  \<^verbatim>\<open>useField.utils\<close>, which is not among the sources. The spec has the merge copy the
  logical component of a section (year, month, day, hour, minute, second, or AM/PM) onto the
  date: a numeric section sets its component to what \<^verbatim>\<open>getNumericSectionValue\<close> reads
  through the matching getter, and a meridiem section moves the hour into the half of the
  day that \<^verbatim>\<open>getMeridiemSectionValue\<close> names. The spec gives no component for a week-day
  or an empty section; the date is left as it is there.
\<close>

definition applySectionValueToDate ::
  "'date MuiPickersAdapter \<Rightarrow> 'date \<Rightarrow> FieldSectionType \<Rightarrow> (('date \<Rightarrow> int) \<Rightarrow> int)
     \<Rightarrow> (unit \<Rightarrow> string) \<Rightarrow> 'date" where
  "applySectionValueToDate =
     (\<lambda>utils date dateSectionName getNumericSectionValue getMeridiemSectionValue.
        case dateSectionName of
          Year \<Rightarrow> setYear utils date (getNumericSectionValue (getYear utils))
        | Month \<Rightarrow> setMonth utils date (getNumericSectionValue (getMonth utils))
        | Day \<Rightarrow> setDate utils date (getNumericSectionValue (getDate utils))
        | Hours \<Rightarrow> setHours utils date (getNumericSectionValue (getHours utils))
        | Minutes \<Rightarrow> setMinutes utils date (getNumericSectionValue (getMinutes utils))
        | Seconds \<Rightarrow> setSeconds utils date (getNumericSectionValue (getSeconds utils))
        | Meridiem \<Rightarrow>
            (let isAM = (getMeridiemSectionValue () = ''AM'');
                 hours = getHours utils date
             in if isAM \<and> hours \<ge> 12 then setHours utils date (hours - 12)
                else if \<not> isAM \<and> hours < 12 then setHours utils date (hours + 12)
                else date)
        | WeekDay \<Rightarrow> date
        | Empty \<Rightarrow> date)"

text \<open>The condition under which \<^verbatim>\<open>updateSectionValue\<close> calls \<^verbatim>\<open>clampDaySection\<close>.\<close>

definition shouldClampDay ::
  "'date MuiPickersAdapter \<Rightarrow> 'date option \<Rightarrow> 'z TSection_scheme list \<Rightarrow> bool" where
  "shouldClampDay = (\<lambda>utils newDate activeDateSections.
     \<not> isValid utils newDate \<and>
     list_all (\<lambda>section. TSection.value section \<noteq> []) activeDateSections \<and>
     list_ex (\<lambda>section. dateSectionName section = Day) activeDateSections)"

text \<open>
  The candidate date of \<^verbatim>\<open>updateSectionValue\<close>: the parse of the sections of the active
  date and, under the condition above, the parse of the clamped sections when
  \<^verbatim>\<open>clampDaySection\<close> returns some.
\<close>

definition parseActiveDateSections ::
  "('date, 'value, 'z TSection_scheme, 'boundaries) UseField \<Rightarrow> 'z TSection_scheme list
     \<Rightarrow> 'date option" where
  "parseActiveDateSections hook activeDateSections =
     (let utils = UseField.utils hook;
          format = UseField.format hook;
          boundaries = getSectionBoundaries hook utils;
          newDate = parse utils (createDateStrFromSections hook activeDateSections False) format
      in if shouldClampDay utils newDate activeDateSections then
           (case clampDaySection hook utils activeDateSections boundaries format of
              None \<Rightarrow> newDate
            | Some cleanSections \<Rightarrow>
                parse utils (createDateStrFromSections hook cleanSections False) format)
         else newDate)"

text \<open>
  The \<^verbatim>\<open>forEach\<close> that merges the candidate date into the reference date. The meridiem
  callback reads the hour of \<^verbatim>\<open>mergedDate\<close> as it is when the callback runs.
\<close>

definition mergeDateIntoReferenceDate ::
  "'date MuiPickersAdapter \<Rightarrow> 'date \<Rightarrow> 'date \<Rightarrow> 'z TSection_scheme list \<Rightarrow> 'date" where
  "mergeDateIntoReferenceDate = (\<lambda>utils referenceActiveDate newDate activeDateSections.
     foldl (\<lambda>mergedDate section.
              if edited section then
                applySectionValueToDate utils mergedDate (dateSectionName section)
                  (\<lambda>getter. getter newDate)
                  (\<lambda>_. if getHours utils mergedDate < 12 then ''AM'' else ''PM'')
              else mergedDate)
       referenceActiveDate activeDateSections)"

text \<open>
  The branch of \<^verbatim>\<open>updateSectionValue\<close> for an active date that is null or not valid,
  from the new section value on.
\<close>

definition updateSectionValueOnSections ::
  "('date, 'value, 'z TSection_scheme, 'boundaries) UseField
     \<Rightarrow> ('value, 'z TSection_scheme) UseFieldState
     \<Rightarrow> FieldSelectedSectionsIndexes option
     \<Rightarrow> ('date, 'z TSection_scheme, 'boundaries) UpdateSectionValueParams
     \<Rightarrow> ('date, 'value) ActiveDateManager
     \<Rightarrow> ('value, 'z TSection_scheme) UseFieldState \<times> 'value effect list
     \<Rightarrow> error + ('value, 'z TSection_scheme) UseFieldState \<times> 'value effect list" where
  "updateSectionValueOnSections hook state selectedSectionIndexes' params activeDateManager =
     (\<lambda>(prevState, effects).
        let utils = UseField.utils hook;
            boundaries = getSectionBoundaries hook utils;
            newSectionValue = setSectionValueOnSections params boundaries
        in case selectedSectionIndexes' of
             None \<Rightarrow> Inl NullPropertyAccess
           | Some indexes \<Rightarrow>
               (let newSections =
                      setSectionValue hook state (startIndex indexes) newSectionValue;
                    activeDateSections =
                      getActiveDateSections (fieldValueManager hook) newSections
                        (activeSection params);
                    newDate = parseActiveDateSections hook activeDateSections
                in (case (if isValid utils newDate then newDate else None) of
                          Some validDate \<Rightarrow>
                            (let mergedDate =
                                   mergeDateIntoReferenceDate utils
                                     (referenceActiveDate activeDateManager) validDate
                                     activeDateSections;
                                 (newState, published) =
                                   publishValue hook state
                                     (getNewValueFromNewActiveDate activeDateManager
                                        (Some mergedDate))
                                     prevState
                             in Inr (newState, effects @ published))
                        | None \<Rightarrow>
                            (let (newValue, newReferenceValue) =
                                   getNewValueFromNewActiveDate activeDateManager newDate
                             in Inr (prevState\<lparr>sections := newSections,
                                              tempValueStrAndroid := None,
                                              value := newValue,
                                              referenceValue := newReferenceValue\<rparr>,
                                     effects)))))"

text \<open>
  The first step of \<^verbatim>\<open>updateSectionValue\<close>: a selection of several sections shrinks to
  its first section.
\<close>

definition collapseSelection ::
  "FieldSelectedSectionsIndexes option \<Rightarrow> ('value, 'section) UseFieldState
     \<Rightarrow> ('value, 'section) UseFieldState \<times> 'value effect list" where
  "collapseSelection selectedSectionIndexes' state =
     (case selectedSectionIndexes' of
        None \<Rightarrow> (state, [])
      | Some indexes \<Rightarrow>
          if startIndex indexes \<noteq> endIndex indexes
          then setSelectedSections (SelectedIndex (startIndex indexes)) state
          else (state, []))"

text \<open>
  \<^verbatim>\<open>updateSectionValue\<close>. A test \<^verbatim>\<open>d != null && utils.isValid(d)\<close> on a nullable date is
  the case distinction on \<open>if isValid utils d then d else None\<close>, which is some date
  exactly when the test holds.
\<close>

definition updateSectionValue ::
  "('date, 'value, 'z TSection_scheme, 'boundaries) UseField
     \<Rightarrow> ('value, 'z TSection_scheme) UseFieldState \<Rightarrow> FieldSelectedSections
     \<Rightarrow> ('date, 'z TSection_scheme, 'boundaries) UpdateSectionValueParams
     \<Rightarrow> error + ('value, 'z TSection_scheme) UseFieldState \<times> 'value effect list" where
  "updateSectionValue hook state selectedSections params =
     (let utils = UseField.utils hook;
          boundaries = getSectionBoundaries hook utils;
          activeDateManager =
            getActiveDateManager (fieldValueManager hook) utils state (activeSection params);
          selectedSectionIndexes' = selectedSectionIndexes selectedSections state;
          afterSelection = collapseSelection selectedSectionIndexes' state
      in case (if isValid utils (activeDate activeDateManager)
               then activeDate activeDateManager else None) of
           Some validActiveDate \<Rightarrow>
             (let newDate = setSectionValueOnDate params validActiveDate boundaries;
                  (newState, published) =
                    publishValue hook state
                      (getNewValueFromNewActiveDate activeDateManager (Some newDate))
                      (fst afterSelection)
              in Inr (newState, snd afterSelection @ published))
         | None \<Rightarrow>
             updateSectionValueOnSections hook state selectedSectionIndexes' params
               activeDateManager afterSelection)"

text \<open>
  Names for the intermediate values of \<^verbatim>\<open>updateSectionValue\<close> in the branch for an active
  date that is not valid, with the selection \<open>indexes\<close> in the range of the sections: the
  active date manager, the sections after \<^verbatim>\<open>setSectionValue\<close>, and those of them that
  belong to the active date.
\<close>

definition activeDateManagerOf ::
  "('date, 'value, 'z TSection_scheme, 'boundaries) UseField
     \<Rightarrow> ('value, 'z TSection_scheme) UseFieldState
     \<Rightarrow> ('date, 'z TSection_scheme, 'boundaries) UpdateSectionValueParams
     \<Rightarrow> ('date, 'value) ActiveDateManager" where
  "activeDateManagerOf hook state params =
     getActiveDateManager (fieldValueManager hook) (UseField.utils hook) state
       (activeSection params)"

definition editedSections ::
  "('date, 'value, 'z TSection_scheme, 'boundaries) UseField
     \<Rightarrow> ('value, 'z TSection_scheme) UseFieldState \<Rightarrow> FieldSelectedSectionsIndexes
     \<Rightarrow> ('date, 'z TSection_scheme, 'boundaries) UpdateSectionValueParams
     \<Rightarrow> 'z TSection_scheme list" where
  "editedSections hook state indexes params =
     addPositionPropertiesToSections hook
       ((sections state)
          [nat (startIndex indexes) :=
             (sections state ! nat (startIndex indexes))
               \<lparr>TSection.value :=
                  setSectionValueOnSections params
                    (getSectionBoundaries hook (UseField.utils hook)),
                edited := True\<rparr>])"

definition editedActiveDateSections ::
  "('date, 'value, 'z TSection_scheme, 'boundaries) UseField
     \<Rightarrow> ('value, 'z TSection_scheme) UseFieldState \<Rightarrow> FieldSelectedSectionsIndexes
     \<Rightarrow> ('date, 'z TSection_scheme, 'boundaries) UpdateSectionValueParams
     \<Rightarrow> 'z TSection_scheme list" where
  "editedActiveDateSections hook state indexes params =
     getActiveDateSections (fieldValueManager hook) (editedSections hook state indexes params)
       (activeSection params)"

definition setTempAndroidValueStr ::
  "string \<Rightarrow> ('value, 'section) UseFieldState \<Rightarrow> ('value, 'section) UseFieldState" where
  "setTempAndroidValueStr tempValueStrAndroid' prev =
     prev\<lparr>tempValueStrAndroid := Some tempValueStrAndroid'\<rparr>"

subsection \<open>The two effects\<close>

definition valueEffect ::
  "('date, 'value, 'section, 'boundaries) UseField \<Rightarrow> ('value, 'section) UseFieldState
     \<Rightarrow> 'value \<Rightarrow> ('value, 'section) UseFieldState" where
  "valueEffect hook state valueFromTheOutside' =
     (let utils = UseField.utils hook
      in if \<not> areValuesEqual (valueManager hook) utils (UseFieldState.value state)
                valueFromTheOutside'
         then
           (let sections =
                  getSectionsFromValue (fieldValueManager hook) utils (Some (sections state))
                    valueFromTheOutside' (UseField.format hook)
            in state\<lparr>value := valueFromTheOutside',
                     referenceValue :=
                       updateReferenceValue (fieldValueManager hook) utils
                         valueFromTheOutside' (referenceValue state),
                     sections := sections\<rparr>)
         else state)"

definition formatEffect ::
  "('date, 'value, 'section, 'boundaries) UseField \<Rightarrow> ('value, 'section) UseFieldState
     \<Rightarrow> error + ('value, 'section) UseFieldState" where
  "formatEffect hook state =
     (let sections =
            getSectionsFromValue (fieldValueManager hook) (UseField.utils hook)
              (Some (sections state)) (UseFieldState.value state) (UseField.format hook)
      in if validateSections hook sections (supportedDateSections hook)
         then Inr (state\<lparr>sections := sections\<rparr>)
         else Inl UnsupportedSection)"

section \<open>A concrete adapter and field for the examples\<close>

text \<open>
  The examples run the two components on a small calendar: a date is invalid or has a year,
  a month (1 to 12), a day, hours (0 to 23), minutes and seconds; a setter replaces its one
  component, and the setters of the year, the month and the day keep the date on the
  calendar: a day beyond the end of the month becomes the last day of the month. The
  formats are \<^verbatim>\<open>MM/dd/yyyy\<close> and \<^verbatim>\<open>hh:mm aa\<close>; the field holds a single date, so a
  value is a nullable date.
\<close>

datatype DemoDate = InvalidDate | DateTime int int int int int int

definition daysInMonth :: "int \<Rightarrow> int \<Rightarrow> int" where
  "daysInMonth y m =
     (if m = 2 then (if y mod 4 = 0 \<and> (y mod 100 \<noteq> 0 \<or> y mod 400 = 0) then 29 else 28)
      else if m = 4 \<or> m = 6 \<or> m = 9 \<or> m = 11 then 30
      else 31)"

fun demoGetYear :: "DemoDate \<Rightarrow> int" where
  "demoGetYear (DateTime y m d h mi s) = y"
| "demoGetYear InvalidDate = 0"

fun demoGetMonth :: "DemoDate \<Rightarrow> int" where
  "demoGetMonth (DateTime y m d h mi s) = m"
| "demoGetMonth InvalidDate = 0"

fun demoGetDate :: "DemoDate \<Rightarrow> int" where
  "demoGetDate (DateTime y m d h mi s) = d"
| "demoGetDate InvalidDate = 0"

fun demoGetHours :: "DemoDate \<Rightarrow> int" where
  "demoGetHours (DateTime y m d h mi s) = h"
| "demoGetHours InvalidDate = 0"

fun demoGetMinutes :: "DemoDate \<Rightarrow> int" where
  "demoGetMinutes (DateTime y m d h mi s) = mi"
| "demoGetMinutes InvalidDate = 0"

fun demoGetSeconds :: "DemoDate \<Rightarrow> int" where
  "demoGetSeconds (DateTime y m d h mi s) = s"
| "demoGetSeconds InvalidDate = 0"

fun demoSetYear :: "DemoDate \<Rightarrow> int \<Rightarrow> DemoDate" where
  "demoSetYear (DateTime y m d h mi s) v = DateTime v m (min d (daysInMonth v m)) h mi s"
| "demoSetYear InvalidDate v = InvalidDate"

fun demoSetMonth :: "DemoDate \<Rightarrow> int \<Rightarrow> DemoDate" where
  "demoSetMonth (DateTime y m d h mi s) v = DateTime y v (min d (daysInMonth y v)) h mi s"
| "demoSetMonth InvalidDate v = InvalidDate"

fun demoSetDate :: "DemoDate \<Rightarrow> int \<Rightarrow> DemoDate" where
  "demoSetDate (DateTime y m d h mi s) v = DateTime y m (min v (daysInMonth y m)) h mi s"
| "demoSetDate InvalidDate v = InvalidDate"

fun demoSetHours :: "DemoDate \<Rightarrow> int \<Rightarrow> DemoDate" where
  "demoSetHours (DateTime y m d h mi s) v = DateTime y m d v mi s"
| "demoSetHours InvalidDate v = InvalidDate"

fun demoSetMinutes :: "DemoDate \<Rightarrow> int \<Rightarrow> DemoDate" where
  "demoSetMinutes (DateTime y m d h mi s) v = DateTime y m d h v s"
| "demoSetMinutes InvalidDate v = InvalidDate"

fun demoSetSeconds :: "DemoDate \<Rightarrow> int \<Rightarrow> DemoDate" where
  "demoSetSeconds (DateTime y m d h mi s) v = DateTime y m d h mi v"
| "demoSetSeconds InvalidDate v = InvalidDate"

fun demoIsValid :: "DemoDate option \<Rightarrow> bool" where
  "demoIsValid (Some (DateTime y m d h mi s)) = True"
| "demoIsValid (Some InvalidDate) = False"
| "demoIsValid None = False"

definition demoNow :: DemoDate where
  "demoNow = DateTime 2024 6 15 10 0 0"

definition digitValue :: "char \<Rightarrow> int option" where
  "digitValue c =
     (let n = (of_char c :: nat) in if 48 \<le> n \<and> n \<le> 57 then Some (int n - 48) else None)"

fun readDigits :: "string \<Rightarrow> int \<Rightarrow> int option" where
  "readDigits [] acc = Some acc"
| "readDigits (c # cs) acc =
     (case digitValue c of
        None \<Rightarrow> None
      | Some v \<Rightarrow> readDigits cs (10 * acc + v))"

definition readNumber :: "string \<Rightarrow> int option" where
  "readNumber s = (if s = [] then None else readDigits s 0)"

definition digitChar :: "int \<Rightarrow> char" where
  "digitChar n = ''0123456789'' ! nat (n mod 10)"

definition pad2 :: "int \<Rightarrow> string" where
  "pad2 n = [digitChar (n div 10), digitChar n]"

definition pad4 :: "int \<Rightarrow> string" where
  "pad4 n = [digitChar (n div 1000), digitChar (n div 100), digitChar (n div 10), digitChar n]"

text \<open>The parse of a date: two digits, a slash, two digits, a slash, four digits.\<close>

definition demoParseDate :: "string \<Rightarrow> DemoDate" where
  "demoParseDate s =
     (if length s = 10 \<and> s ! 2 = CHR ''/'' \<and> s ! 5 = CHR ''/'' then
        (case (readNumber (take 2 s), readNumber (take 2 (drop 3 s)), readNumber (drop 6 s)) of
           (Some m, Some d, Some y) \<Rightarrow>
             if 1 \<le> m \<and> m \<le> 12 \<and> 1 \<le> d \<and> d \<le> daysInMonth y m
             then DateTime y m d 0 0 0
             else InvalidDate
         | _ \<Rightarrow> InvalidDate)
      else InvalidDate)"

text \<open>
  The parse of a time of day on the twelve-hour clock; the date part is the one of
  \<open>demoNow\<close>.
\<close>

definition demoParseTime :: "string \<Rightarrow> DemoDate" where
  "demoParseTime s =
     (if length s = 8 \<and> s ! 2 = CHR '':'' \<and> s ! 5 = CHR '' '' \<and>
         (drop 6 s = ''AM'' \<or> drop 6 s = ''PM'') then
        (case (readNumber (take 2 s), readNumber (take 2 (drop 3 s))) of
           (Some h, Some mi) \<Rightarrow>
             if 1 \<le> h \<and> h \<le> 12 \<and> 0 \<le> mi \<and> mi \<le> 59
             then DateTime (demoGetYear demoNow) (demoGetMonth demoNow) (demoGetDate demoNow)
                    (h mod 12 + (if drop 6 s = ''PM'' then 12 else 0)) mi 0
             else InvalidDate
         | _ \<Rightarrow> InvalidDate)
      else InvalidDate)"

definition demoParse :: "string \<Rightarrow> string \<Rightarrow> DemoDate option" where
  "demoParse s fmt =
     (if fmt = ''MM/dd/yyyy'' then Some (demoParseDate s)
      else if fmt = ''hh:mm aa'' then Some (demoParseTime s)
      else Some InvalidDate)"

definition demoFormatByString :: "DemoDate \<Rightarrow> string \<Rightarrow> string" where
  "demoFormatByString d token =
     (if token = ''yyyy'' then pad4 (demoGetYear d)
      else if token = ''MM'' then pad2 (demoGetMonth d)
      else if token = ''dd'' then pad2 (demoGetDate d)
      else if token = ''hh'' then pad2 ((demoGetHours d + 11) mod 12 + 1)
      else if token = ''mm'' then pad2 (demoGetMinutes d)
      else if token = ''ss'' then pad2 (demoGetSeconds d)
      else if token = ''aa'' then (if demoGetHours d < 12 then ''AM'' else ''PM'')
      else token)"

text \<open>
  The composite token \<^verbatim>\<open>P\<close> expands to the date format; text between brackets is escaped.
\<close>

definition demoUtils :: "DemoDate MuiPickersAdapter" where
  "demoUtils =
     \<lparr>MuiPickersAdapter.expandFormat = (\<lambda>f. if f = ''P'' then ''MM/dd/yyyy'' else f),
      escapedCharacters = (CHR ''['', CHR '']''),
      formatTokenMap = [''yyyy'', ''MM'', ''dd'', ''hh'', ''mm'', ''ss'', ''aa'', ''M'', ''d''],
      formatByString = demoFormatByString,
      MuiPickersAdapter.date = (\<lambda>timezone. demoNow),
      isValid = demoIsValid,
      parse = demoParse,
      getYear = demoGetYear,
      getMonth = demoGetMonth,
      getDate = demoGetDate,
      getHours = demoGetHours,
      getMinutes = demoGetMinutes,
      getSeconds = demoGetSeconds,
      setYear = demoSetYear,
      setMonth = demoSetMonth,
      setDate = demoSetDate,
      setHours = demoSetHours,
      setMinutes = demoSetMinutes,
      setSeconds = demoSetSeconds\<rparr>"

subsection \<open>The parser's helpers and parameters\<close>

definition demoSectionConfig :: "string \<Rightarrow> SectionConfig" where
  "demoSectionConfig token =
     (if token = ''yyyy'' then \<lparr>type = Year, contentType = Digit, maxLength = Some 4\<rparr>
      else if token = ''MM'' \<or> token = ''M'' then
        \<lparr>type = Month, contentType = Digit, maxLength = Some 2\<rparr>
      else if token = ''dd'' \<or> token = ''d'' then
        \<lparr>type = Day, contentType = Digit, maxLength = Some 2\<rparr>
      else if token = ''hh'' then \<lparr>type = Hours, contentType = Digit, maxLength = Some 2\<rparr>
      else if token = ''mm'' then \<lparr>type = Minutes, contentType = Digit, maxLength = Some 2\<rparr>
      else if token = ''ss'' then \<lparr>type = Seconds, contentType = Digit, maxLength = Some 2\<rparr>
      else \<lparr>type = Meridiem, contentType = Letter, maxLength = None\<rparr>)"

definition demoFieldUtils :: "DemoDate FieldUtils" where
  "demoFieldUtils =
     \<lparr>getDateSectionConfigFromFormatToken = (\<lambda>utils token. demoSectionConfig token),
      doesSectionFormatHaveLeadingZeros =
        (\<lambda>utils timezone contentType sectionType token.
           contentType = Digit \<and> length token > 1),
      cleanLeadingZeros =
        (\<lambda>valueStr size.
           (let cleaned = dropWhile (\<lambda>c. c = CHR ''0'') valueStr
            in replicate (size - length cleaned) CHR ''0'' @ cleaned)),
      applyLocalizedDigits = (\<lambda>valueStr localizedDigits. valueStr),
      removeLocalizedDigits = (\<lambda>valueStr localizedDigits. valueStr)\<rparr>"

definition demoLocaleText :: PickersLocaleText where
  "demoLocaleText =
     \<lparr>fieldYearPlaceholder = (\<lambda>digitAmount format. replicate digitAmount CHR ''Y''),
      fieldMonthPlaceholder = (\<lambda>contentType format. ''MM''),
      fieldDayPlaceholder = (\<lambda>format. ''DD''),
      fieldWeekDayPlaceholder = (\<lambda>contentType format. ''EEEE''),
      fieldHoursPlaceholder = (\<lambda>format. ''hh''),
      fieldMinutesPlaceholder = (\<lambda>format. ''mm''),
      fieldSecondsPlaceholder = (\<lambda>format. ''ss''),
      fieldMeridiemPlaceholder = (\<lambda>format. ''aa'')\<rparr>"

definition demoParams :: "string \<Rightarrow> DemoDate BuildSectionsFromFormatParams" where
  "demoParams fmt =
     \<lparr>BuildSectionsFromFormatParams.utils = demoUtils,
      BuildSectionsFromFormatParams.format = fmt,
      formatDensity = Dense,
      isRTL = False,
      timezone = ''default'',
      shouldRespectLeadingZeros = False,
      localeText = demoLocaleText,
      localizedDigits = map (\<lambda>c. [c]) ''0123456789'',
      BuildSectionsFromFormatParams.date = None,
      enableAccessibleFieldDOMStructure = False\<rparr>"

text \<open>
  The adapter of the examples with another clock and without a parser, and the parameters
  of the examples with an adapter and a date.
\<close>

definition demoUtilsLater :: "DemoDate MuiPickersAdapter" where
  "demoUtilsLater =
     demoUtils\<lparr>MuiPickersAdapter.date := (\<lambda>timezone. DateTime 2031 12 31 23 59 59),
               parse := (\<lambda>s fmt. None)\<rparr>"

definition demoParamsOf ::
  "DemoDate MuiPickersAdapter \<Rightarrow> string \<Rightarrow> DemoDate \<Rightarrow> DemoDate BuildSectionsFromFormatParams" where
  "demoParamsOf adapter fmt d =
     (demoParams fmt)\<lparr>BuildSectionsFromFormatParams.utils := adapter,
                      BuildSectionsFromFormatParams.date := Some d\<rparr>"

subsection \<open>The field\<close>

text \<open>
  A section of the examples extends the section of the hook with its format token and its
  two separators. The sections of a value are the sections of the format, filled from the
  date when it is valid and left empty otherwise.
\<close>

record DemoSection = TSection +
  format :: string
  startSeparator :: string
  endSeparator :: string

definition demoSection :: "FieldSectionType \<Rightarrow> string \<Rightarrow> string \<Rightarrow> DemoSection" where
  "demoSection name token separatorAfter =
     \<lparr>dateSectionName = name,
      TSection.value = [],
      edited = False,
      DemoSection.format = token,
      DemoSection.startSeparator = [],
      DemoSection.endSeparator = separatorAfter\<rparr>"

definition demoSections :: "string \<Rightarrow> DemoSection list" where
  "demoSections fmt =
     (if fmt = ''MM/dd/yyyy'' then
        [demoSection Month ''MM'' ''/'', demoSection Day ''dd'' ''/'',
         demoSection Year ''yyyy'' []]
      else if fmt = ''hh:mm aa'' then
        [demoSection Hours ''hh'' '':'', demoSection Minutes ''mm'' '' '',
         demoSection Meridiem ''aa'' []]
      else [])"

definition demoGetSectionsFromValue ::
  "DemoDate MuiPickersAdapter \<Rightarrow> DemoSection list option \<Rightarrow> DemoDate option \<Rightarrow> string
     \<Rightarrow> DemoSection list" where
  "demoGetSectionsFromValue adapter prevSections v fmt =
     map (\<lambda>section.
            section\<lparr>TSection.value :=
              (case v of
                 Some d \<Rightarrow>
                   if isValid adapter v then formatByString adapter d (DemoSection.format section)
                   else []
               | None \<Rightarrow> [])\<rparr>)
       (demoSections fmt)"

text \<open>
  The field holds one date: the active date is the value, the sections of the active date
  are all the sections, and a new active date becomes the value and, when it is valid, the
  reference value.
\<close>

definition demoFieldValueManager ::
  "(DemoDate, DemoDate option, DemoSection) FieldValueManager" where
  "demoFieldValueManager =
     \<lparr>getSectionsFromValue = demoGetSectionsFromValue,
      updateReferenceValue =
        (\<lambda>adapter v prevReferenceValue. if isValid adapter v then v else prevReferenceValue),
      getActiveDateManager =
        (\<lambda>adapter state section.
           \<lparr>activeDate = UseFieldState.value state,
            referenceActiveDate =
              (case referenceValue state of Some d \<Rightarrow> d | None \<Rightarrow> InvalidDate),
            getNewValueFromNewActiveDate =
              (\<lambda>newActiveDate.
                 (newActiveDate,
                  if isValid adapter newActiveDate then newActiveDate
                  else referenceValue state))\<rparr>),
      getActiveDateSections = (\<lambda>allSections section. allSections)\<rparr>"

definition demoValueManager :: "(DemoDate, DemoDate option) ValueManager" where
  "demoValueManager =
     \<lparr>emptyValue = None,
      areValuesEqual = (\<lambda>adapter a b. a = b),
      getTodayValue = (\<lambda>adapter. Some (MuiPickersAdapter.date adapter None))\<rparr>"

text \<open>
  Modelled from the spec: \<^verbatim>\<open>createDateStrFromSections\<close> is imported from
  \<^verbatim>\<open>useField.utils\<close>, which is not among the sources. The spec has the candidate date
  parsed from the concatenation of the sections, each with its two separators.
\<close>

definition demoCreateDateStrFromSections :: "DemoSection list \<Rightarrow> bool \<Rightarrow> string" where
  "demoCreateDateStrFromSections allSections willBeRenderedInInput =
     concat (map (\<lambda>section. DemoSection.startSeparator section @ TSection.value section @
                              DemoSection.endSeparator section) allSections)"

text \<open>
  The boundaries of the examples are the bounds of the day section: the least and the
  greatest day for the month and year of the date, and 1 to 31 without a date.
\<close>

definition demoDayBoundaries :: "DemoDate option \<Rightarrow> int \<times> int" where
  "demoDayBoundaries currentDate =
     (case currentDate of
        Some (DateTime y m d h mi s) \<Rightarrow> (1, daysInMonth y m)
      | _ \<Rightarrow> (1, 31))"

text \<open>
  Modelled from the spec: \<^verbatim>\<open>clampDaySection\<close> is imported from \<^verbatim>\<open>useField.utils\<close>,
  which is not among the sources. The spec has the recovery assume that the day exceeds the
  length of the month and force it down to the supplied maximum for that month and year.
  The month and year are those of the sections parsed with the day at its least bound;
  when that parse is not valid either, the recovery gives up (null). A day section whose
  number exceeds the greatest day of that month gets that day as its text.
\<close>

definition demoClampDaySection ::
  "DemoDate MuiPickersAdapter \<Rightarrow> DemoSection list \<Rightarrow> (DemoDate option \<Rightarrow> int \<times> int) \<Rightarrow> string
     \<Rightarrow> DemoSection list option" where
  "demoClampDaySection adapter allSections boundaries fmt =
     (let sectionsForStartOfMonth =
            map (\<lambda>section.
                   if dateSectionName section = Day
                   then section\<lparr>TSection.value := pad2 (fst (boundaries None))\<rparr>
                   else section)
              allSections;
          startOfMonth =
            parse adapter (demoCreateDateStrFromSections sectionsForStartOfMonth False) fmt
      in if isValid adapter startOfMonth then
           Some (map (\<lambda>section.
                        if dateSectionName section = Day \<and>
                           (case readNumber (TSection.value section) of
                              Some n \<Rightarrow> n > snd (boundaries startOfMonth)
                            | None \<Rightarrow> False)
                        then section\<lparr>TSection.value := pad2 (snd (boundaries startOfMonth))\<rparr>
                        else section)
                   allSections)
         else None)"

definition demoHook ::
  "string \<Rightarrow> (DemoDate, DemoDate option, DemoSection, DemoDate option \<Rightarrow> int \<times> int) UseField" where
  "demoHook fmt =
     \<lparr>UseField.utils = demoUtils,
      valueManager = demoValueManager,
      fieldValueManager = demoFieldValueManager,
      supportedDateSections = [Year, Month, Day, Hours, Minutes, Seconds, Meridiem],
      UseField.format = fmt,
      addPositionPropertiesToSections = (\<lambda>allSections. allSections),
      clampDaySection = demoClampDaySection,
      createDateStrFromSections = demoCreateDateStrFromSections,
      getSectionBoundaries = (\<lambda>adapter. demoDayBoundaries),
      validateSections =
        (\<lambda>allSections supported.
           list_all (\<lambda>section. dateSectionName section \<in> set supported) allSections),
      undefinedSection = demoSection Empty [] []\<rparr>"

text \<open>
  A state whose value is null while its sections still hold text: the state after
  \<^verbatim>\<open>clearActiveSection\<close> on the section \<open>cleared\<close> of the sections of the date
  \<open>d\<close>, which stays the reference value.
\<close>

definition demoStateAfterClear ::
  "string \<Rightarrow> DemoDate \<Rightarrow> nat \<Rightarrow> (DemoDate option, DemoSection) UseFieldState" where
  "demoStateAfterClear fmt d cleared =
     \<lparr>sections =
        (demoGetSectionsFromValue demoUtils None (Some d) fmt)
          [cleared :=
             (demoGetSectionsFromValue demoUtils None (Some d) fmt ! cleared)
               \<lparr>TSection.value := [], edited := True\<rparr>],
      UseFieldState.value = None,
      referenceValue = Some d,
      tempValueStrAndroid = Some ''pending'',
      selectedSectionQuery = Undefined\<rparr>"

text \<open>
  A state of an empty field into whose sections the user has typed the \<open>texts\<close>: every
  section that holds text is marked as edited.
\<close>

definition demoStateTyping ::
  "string \<Rightarrow> string list \<Rightarrow> DemoDate \<Rightarrow> (DemoDate option, DemoSection) UseFieldState" where
  "demoStateTyping fmt texts d =
     \<lparr>sections =
        map (\<lambda>(section, text). section\<lparr>TSection.value := text, edited := (text \<noteq> [])\<rparr>)
          (zip (demoSections fmt) texts),
      UseFieldState.value = None,
      referenceValue = Some d,
      tempValueStrAndroid = None,
      selectedSectionQuery = Undefined\<rparr>"

text \<open>An edit that types \<open>text\<close> into the section \<open>section\<close>.\<close>

definition demoEdit ::
  "DemoSection \<Rightarrow> string
     \<Rightarrow> (DemoDate, DemoSection, DemoDate option \<Rightarrow> int \<times> int) UpdateSectionValueParams" where
  "demoEdit section text =
     \<lparr>activeSection = section,
      setSectionValueOnDate = (\<lambda>activeDate' boundaries. activeDate'),
      setSectionValueOnSections = (\<lambda>boundaries. text)\<rparr>"

section \<open>Properties of the format parser\<close>

subsection \<open>Format expansion\<close>

lemma funpow_fixed: "E p = p \<Longrightarrow> (E ^^ n) p = p"
  by (induction n) simp_all

lemma expandFormat_loop_fixed:
  "j \<le> nat ov \<Longrightarrow> E ((E ^^ j) p) = (E ^^ j) p \<Longrightarrow>
     expandFormat_loop E ov p (E p) = Inr ((E ^^ j) p)"
proof (induction j arbitrary: ov p)
  case 0
  then show ?case by (simp add: expandFormat_loop.simps)
next
  case (Suc j)
  show ?case
  proof (cases "E p = p")
    case True
    then show ?thesis
      using funpow_fixed [of E p "Suc j"] by (simp add: expandFormat_loop.simps)
  next
    case False
    from Suc.prems have ov: "\<not> ov - 1 < 0" "j \<le> nat (ov - 1)" by auto
    from Suc.prems have fp: "E ((E ^^ j) (E p)) = (E ^^ j) (E p)"
      by (simp add: funpow_swap1)
    have "expandFormat_loop E ov p (E p) = expandFormat_loop E (ov - 1) (E p) (E (E p))"
      using False ov by (subst expandFormat_loop.simps) (simp add: Let_def)
    also have "\<dots> = Inr ((E ^^ j) (E p))"
      using Suc.IH [OF ov(2) fp] .
    finally show ?thesis by (simp add: funpow_swap1)
  qed
qed

lemma expandFormat_loop_overflow:
  "0 \<le> ov \<Longrightarrow> \<forall>j\<le>nat ov. E ((E ^^ j) p) \<noteq> (E ^^ j) p \<Longrightarrow>
     expandFormat_loop E ov p (E p) = Inl FormatExpansionOverflow"
proof (induction "nat ov" arbitrary: ov p)
  case 0
  then have "ov = 0" "E p \<noteq> p" by auto
  then show ?case by (subst expandFormat_loop.simps) (simp add: Let_def)
next
  case (Suc n)
  from Suc.prems(2) have ne: "E p \<noteq> p" by (metis funpow_0 le0)
  from Suc.hyps(2) have ov: "n = nat (ov - 1)" "0 \<le> ov - 1" "\<not> ov - 1 < 0" by auto
  have "\<forall>j\<le>nat (ov - 1). E ((E ^^ j) (E p)) \<noteq> (E ^^ j) (E p)"
  proof (intro allI impI)
    fix j assume "j \<le> nat (ov - 1)"
    then have "Suc j \<le> nat ov" using ov by auto
    with Suc.prems(2) have "E ((E ^^ Suc j) p) \<noteq> (E ^^ Suc j) p" by blast
    then show "E ((E ^^ j) (E p)) \<noteq> (E ^^ j) (E p)" by (simp add: funpow_swap1)
  qed
  with Suc.hyps(1) [OF ov(1) ov(2)]
  have "expandFormat_loop E (ov - 1) (E p) (E (E p)) = Inl FormatExpansionOverflow" by blast
  then show ?case
    using ne ov by (subst expandFormat_loop.simps) (simp add: Let_def)
qed

text \<open>
  C5. Format expansion applies the adapter's \<^verbatim>\<open>expandFormat\<close> until the result no longer
  changes. When the format after \<open>j\<close> applications, for some \<open>j\<close> up to 10, is a fixed point
  of the adapter's rule, that fixed point is returned without error; when none of the
  formats after 0 to 10 applications is a fixed point, the expansion fails with the
  overflow error.
\<close>

theorem expandFormat_fixed_point_or_overflow:
  fixes params :: "'date BuildSectionsFromFormatParams"
  defines "E \<equiv> MuiPickersAdapter.expandFormat (BuildSectionsFromFormatParams.utils params)"
    and "f \<equiv> BuildSectionsFromFormatParams.format params"
  shows "(\<forall>j\<le>10. E ((E ^^ j) f) = (E ^^ j) f \<longrightarrow> expandFormat params = Inr ((E ^^ j) f)) \<and>
         ((\<forall>j\<le>10. E ((E ^^ j) f) \<noteq> (E ^^ j) f) \<longrightarrow>
            expandFormat params = Inl FormatExpansionOverflow)"
proof (intro conjI allI impI)
  fix j :: nat
  assume "j \<le> 10" and "E ((E ^^ j) f) = (E ^^ j) f"
  then show "expandFormat params = Inr ((E ^^ j) f)"
    using expandFormat_loop_fixed [of j 10 E f]
    by (simp add: expandFormat_def E_def f_def Let_def)
next
  assume "\<forall>j\<le>10. E ((E ^^ j) f) \<noteq> (E ^^ j) f"
  then show "expandFormat params = Inl FormatExpansionOverflow"
    using expandFormat_loop_overflow [of 10 E f]
    by (simp add: expandFormat_def E_def f_def Let_def)
qed

lemma funpow_flip:
  "((\<lambda>f. if f = ''a'' then ''b'' else ''a'') ^^ j) ''a'' = (if even j then ''a'' else ''b'')"
  by (induction j) simp_all

text \<open>
  The rule of the example adapter reaches its fixed point after one application; a rule
  that flips between two formats never does.
\<close>

theorem expandFormat_fixed_point_or_overflow_witness:
  "expandFormat (demoParams ''P'') = Inr ''MM/dd/yyyy'' \<and>
   expandFormat
     ((demoParams ''a'')\<lparr>BuildSectionsFromFormatParams.utils :=
        demoUtils\<lparr>MuiPickersAdapter.expandFormat := (\<lambda>f. if f = ''a'' then ''b'' else ''a'')\<rparr>\<rparr>)
     = Inl FormatExpansionOverflow"
proof
  show "expandFormat (demoParams ''P'') = Inr ''MM/dd/yyyy''"
    using expandFormat_fixed_point_or_overflow [of "demoParams ''P''"]
    by (auto simp: demoParams_def demoUtils_def dest!: spec [of _ 1])
next
  let ?flip = "\<lambda>f. if f = ''a'' then ''b'' else ''a''"
  let ?params = "(demoParams ''a'')\<lparr>BuildSectionsFromFormatParams.utils :=
        demoUtils\<lparr>MuiPickersAdapter.expandFormat := ?flip\<rparr>\<rparr>"
  have "\<forall>j\<le>10. ?flip ((?flip ^^ j) ''a'') \<noteq> (?flip ^^ j) ''a''"
    by (simp add: funpow_flip)
  then show "expandFormat ?params = Inl FormatExpansionOverflow"
    using expandFormat_fixed_point_or_overflow [of ?params]
    by (simp add: demoParams_def)
qed

subsection \<open>Formats of literal text only\<close>

lemma buildSections_loop_no_token:
  assumes "hasNoTokenStart (formatTokenMap (BuildSectionsFromFormatParams.utils params))
             expandedFormat escapedParts"
  shows "buildSections_loop H params expandedFormat escapedParts now (i, [], sep, [], li) =
           Some (Inr ([], sep @ literalTextFrom expandedFormat escapedParts i, []))"
proof (induction "length expandedFormat - i" arbitrary: i sep li)
  case 0
  then have "\<not> i < length expandedFormat" by simp
  then show ?case
    by (subst buildSections_loop.simps) (simp add: literalTextFrom_def)
next
  case (Suc n)
  then have lt: "i < length expandedFormat" and n: "n = length expandedFormat - (i + 1)"
    by simp_all
  let ?keys = "formatTokenMap (BuildSectionsFromFormatParams.utils params)"
  from assms lt have no:
    "escapedPartAt escapedParts i \<noteq> None \<or> \<not> isLetter (expandedFormat ! i) \<or>
       tokenStartLength ?keys (drop i expandedFormat) = None"
    by (simp add: hasNoTokenStart_def list_all_iff)
  have upt: "[i..<length expandedFormat] = i # [i + 1..<length expandedFormat]"
    using lt by (simp add: upt_conv_Cons)
  obtain m li' where test:
    "isTokenStartRegExp_test ?keys li (drop i expandedFormat) = (m, li')"
    by (cases "isTokenStartRegExp_test ?keys li (drop i expandedFormat)")
  have branch: "\<not> (escapedPartAt escapedParts i = None \<and> isLetter (expandedFormat ! i) \<and> m)"
    using no test by (auto simp: isTokenStartRegExp_test_def split: if_splits option.splits)
  show ?case
  proof (cases "isEscapeBoundaryAt escapedParts i")
    case True
    then have b: "(case escapedPartAt escapedParts i of None \<Rightarrow> False
                   | Some (start, end) \<Rightarrow> start = i \<or> end = i)"
      by (simp add: isEscapeBoundaryAt_def)
    have "buildSections_loop H params expandedFormat escapedParts now (i, [], sep, [], li) =
          buildSections_loop H params expandedFormat escapedParts now (i + 1, [], sep, [], li')"
      using lt test branch b
      by (subst buildSections_loop.simps) (auto simp add: escapedPartAt_def Let_def)
    also have "\<dots> = Some (Inr ([], sep @ literalTextFrom expandedFormat escapedParts (i + 1), []))"
      using Suc.hyps(1) [OF n] .
    finally show ?thesis using True by (simp add: literalTextFrom_def upt)
  next
    case False
    then have b: "\<not> (case escapedPartAt escapedParts i of None \<Rightarrow> False
                   | Some (start, end) \<Rightarrow> start = i \<or> end = i)"
      by (simp add: isEscapeBoundaryAt_def)
    have "buildSections_loop H params expandedFormat escapedParts now (i, [], sep, [], li) =
          buildSections_loop H params expandedFormat escapedParts now
            (i + 1, [], sep @ [expandedFormat ! i], [], li')"
      using lt test branch b
      by (subst buildSections_loop.simps) (auto simp add: escapedPartAt_def Let_def)
    also have "\<dots> = Some (Inr ([], (sep @ [expandedFormat ! i]) @
                 literalTextFrom expandedFormat escapedParts (i + 1), []))"
      using Suc.hyps(1) [OF n] .
    finally show ?thesis using False by (simp add: literalTextFrom_def upt)
  qed
qed

lemma buildSections_no_token:
  assumes "hasNoTokenStart (formatTokenMap (BuildSectionsFromFormatParams.utils params))
             expandedFormat escapedParts"
  shows "buildSections H params expandedFormat escapedParts =
           Some (Inr (if literalTextFrom expandedFormat escapedParts 0 = [] then []
                      else [emptySection (literalTextFrom expandedFormat escapedParts 0)]))"
  using buildSections_loop_no_token [OF assms, of H _ 0 "[]" 0]
  by (simp add: buildSections_def Let_def)

lemma cleanSeparator_Nil: "cleanSeparator rtl density [] = []"
  by (simp add: cleanSeparator_def)

text \<open>
  C6, amended. Let the expansion of the format succeed, and let \<open>F\<close> be the format that
  the parser tokenizes: the expanded format, with its groups between spaces in reverse
  order when \<^verbatim>\<open>isRTL\<close> and \<^verbatim>\<open>enableAccessibleFieldDOMStructure\<close> are both set. Let the
  escaped parts be those that \<^verbatim>\<open>getEscapedPartsFromFormat\<close> finds in \<open>F\<close>; a run of
  adjacent escaped groups is one part. Let \<open>F\<close> have no token start: at every index of
  \<open>F\<close> either the index lies in an escaped part, or the character is no letter, or no
  key of the token map is a prefix of the rest of \<open>F\<close>. Let the literal text be \<open>F\<close>
  without the first and the last character of each escaped part. When the literal text is
  empty, the parser emits no section. Otherwise it emits exactly one section, of type
  \<open>Empty\<close>, whose start separator is \<^verbatim>\<open>cleanSeparator\<close> of the literal text (the literal
  text itself in a dense left-to-right layout) and whose value, placeholder, format and end
  separator are empty.
\<close>

theorem literal_format_sections:
  fixes params :: "'date BuildSectionsFromFormatParams"
  assumes expanded: "expandFormat params = Inr expandedFormat"
  defines "escapedParts \<equiv>
             getEscapedPartsFromFormat params (reorderedFormat params expandedFormat)"
  defines "literal \<equiv> literalTextFrom (reorderedFormat params expandedFormat) escapedParts 0"
  assumes noToken:
    "hasNoTokenStart (formatTokenMap (BuildSectionsFromFormatParams.utils params))
       (reorderedFormat params expandedFormat) escapedParts"
  shows "(literal = [] \<longrightarrow> buildSectionsFromFormat H params = Some (Inr [])) \<and>
         (literal \<noteq> [] \<longrightarrow>
            (\<exists>section. buildSectionsFromFormat H params = Some (Inr [section]) \<and>
               type section = Empty \<and>
               FieldSection.startSeparator section =
                 cleanSeparator (isRTL params) (formatDensity params) literal \<and>
               FieldSection.value section = [] \<and> placeholder section = [] \<and>
               FieldSection.format section = [] \<and>
               FieldSection.endSeparator section = []))"
  using expanded buildSections_no_token [OF noToken, of H]
  by (simp add: buildSectionsFromFormat_def reorderedFormat_def escapedParts_def literal_def
        postProcessSections_def emptySection_def cleanSeparator_Nil Let_def)

text \<open>The format \<^verbatim>\<open>[at] - \<close> of the example adapter: one section that holds \<^verbatim>\<open>at - \<close>.\<close>

theorem literal_format_sections_witness:
  "\<exists>section.
     buildSectionsFromFormat demoFieldUtils (demoParams ''[at] - '') = Some (Inr [section]) \<and>
     type section = Empty \<and> FieldSection.startSeparator section = ''at - ''"
proof -
  have e: "expandFormat (demoParams ''[at] - '') = Inr ''[at] - ''"
    by (simp add: expandFormat_def demoParams_def demoUtils_def expandFormat_loop.simps)
  have r: "reorderedFormat (demoParams ''[at] - '') ''[at] - '' = ''[at] - ''"
    by (simp add: reorderedFormat_def demoParams_def)
  have p: "getEscapedPartsFromFormat (demoParams ''[at] - '') ''[at] - '' = [(0, 3)]"
    by (simp add: getEscapedPartsFromFormat_def demoParams_def demoUtils_def
          escapedParts_loop.simps lastGroupEnd.simps indexOfFrom_def upt_conv_Cons)
  have n: "hasNoTokenStart
             (formatTokenMap (BuildSectionsFromFormatParams.utils (demoParams ''[at] - '')))
             ''[at] - '' [(0, 3)]"
    by (simp add: hasNoTokenStart_def escapedPartAt_def isLetter_def upt_conv_Cons)
  have l: "literalTextFrom ''[at] - '' [(0, 3)] 0 = ''at - ''"
    by (simp add: literalTextFrom_def isEscapeBoundaryAt_def escapedPartAt_def upt_conv_Cons)
  have c: "cleanSeparator False Dense ''at - '' = ''at - ''"
    by (simp add: cleanSeparator_def)
  from literal_format_sections [of "demoParams ''[at] - ''" "''[at] - ''" demoFieldUtils]
  show ?thesis
    unfolding r p l using e n c by (auto simp: demoParams_def)
qed

text \<open>
  Two formats of the example adapter that show why the statement above is about \<open>F\<close>
  and about the escaped parts as the parser finds them. The expanded format \<^verbatim>\<open>[dd x]\<close>
  has no token start, but in the right-to-left accessible layout the parser tokenizes
  \<^verbatim>\<open>x] [dd\<close>, which has no escaped part, and emits a day section. The format
  \<^verbatim>\<open>[a][b]\<close> is one escaped part, and its literal text keeps the two inner brackets.
\<close>

lemma reordered_format_has_token:
  "hasNoTokenStart (formatTokenMap demoUtils) ''[dd x]''
     (getEscapedPartsFromFormat (demoParams ''[dd x]'') ''[dd x]'') \<and>
   reorderedFormat
     ((demoParams ''[dd x]'')\<lparr>isRTL := True, enableAccessibleFieldDOMStructure := True\<rparr>)
     ''[dd x]'' = ''x] [dd'' \<and>
   map_option (map_sum id (map type))
     (buildSectionsFromFormat demoFieldUtils
        ((demoParams ''[dd x]'')\<lparr>isRTL := True, enableAccessibleFieldDOMStructure := True\<rparr>))
     = Some (Inr [Day])"
  by code_simp

lemma adjacent_escaped_groups_literal:
  "getEscapedPartsFromFormat (demoParams ''[a][b]'') ''[a][b]'' = [(0, 5)] \<and>
   buildSectionsFromFormat demoFieldUtils (demoParams ''[a][b]'') =
     Some (Inr [emptySection ''a][b''])"
  by code_simp

text \<open>
  C6, as the claim states it, fails for the empty format: it has no token start, it
  expands to itself, and the parser emits no section for it instead of one.
\<close>

theorem empty_format_no_section:
  "hasNoTokenStart (formatTokenMap (BuildSectionsFromFormatParams.utils (demoParams [])))
     [] (getEscapedPartsFromFormat (demoParams []) []) \<and>
   expandFormat (demoParams []) = Inr [] \<and>
   buildSectionsFromFormat demoFieldUtils (demoParams []) = Some (Inr [])"
  by (simp add: buildSectionsFromFormat_def expandFormat_def expandFormat_loop.simps
        demoParams_def demoUtils_def getEscapedPartsFromFormat_def escapedParts_loop.simps
        indexOfFrom_def buildSections_def buildSections_loop.simps postProcessSections_def
        hasNoTokenStart_def)

subsection \<open>Determinism\<close>

text \<open>
  C7, as the claim states it, fails: two parameter objects that agree on the format, the
  date, the adapter and locale, the density and the direction flags, and differ in
  \<^verbatim>\<open>shouldRespectLeadingZeros\<close> only, give different section lists.
\<close>

theorem sections_depend_on_shouldRespectLeadingZeros:
  "buildSectionsFromFormat demoFieldUtils
     ((demoParams ''M'')\<lparr>shouldRespectLeadingZeros := True\<rparr>) \<noteq>
   buildSectionsFromFormat demoFieldUtils (demoParams ''M'')"
  by (simp add: buildSectionsFromFormat_def expandFormat_def expandFormat_loop.simps
        demoParams_def demoUtils_def getEscapedPartsFromFormat_def escapedParts_loop.simps
        indexOfFrom_def buildSections_def buildSections_loop.simps postProcessSections_def
        isTokenStartRegExp_test_def tokenStartLength_def sortedTokens_def isLetter_def
        createSection_def demoFieldUtils_def demoSectionConfig_def Let_def)

text \<open>
  What \<^verbatim>\<open>createSection\<close> reads for one token: the parameters other than the adapter, and
  of the adapter the validity and the formatted text of the date, the lengths of the two
  readings of the clock formatted with the token, and the answers of the two helpers.
\<close>

lemma createSection_reads:
  fixes p q :: "'date BuildSectionsFromFormatParams"
  assumes "timezone p = timezone q"
    and "shouldRespectLeadingZeros p = shouldRespectLeadingZeros q"
    and "localeText p = localeText q"
    and "localizedDigits p = localizedDigits q"
    and "BuildSectionsFromFormatParams.date p = BuildSectionsFromFormatParams.date q"
    and "isValid (BuildSectionsFromFormatParams.utils p) (BuildSectionsFromFormatParams.date p) =
         isValid (BuildSectionsFromFormatParams.utils q) (BuildSectionsFromFormatParams.date p)"
    and "\<forall>d. BuildSectionsFromFormatParams.date p = Some d \<longrightarrow>
           formatByString (BuildSectionsFromFormatParams.utils p) d token =
           formatByString (BuildSectionsFromFormatParams.utils q) d token"
    and "length (formatByString (BuildSectionsFromFormatParams.utils p) nowp token) =
         length (formatByString (BuildSectionsFromFormatParams.utils q) nowq token)"
    and "length (formatByString (BuildSectionsFromFormatParams.utils p)
                   (MuiPickersAdapter.date (BuildSectionsFromFormatParams.utils p)
                      (Some (timezone p))) token) =
         length (formatByString (BuildSectionsFromFormatParams.utils q)
                   (MuiPickersAdapter.date (BuildSectionsFromFormatParams.utils q)
                      (Some (timezone p))) token)"
    and "getDateSectionConfigFromFormatToken H (BuildSectionsFromFormatParams.utils p) token =
         getDateSectionConfigFromFormatToken H (BuildSectionsFromFormatParams.utils q) token"
    and "\<forall>sectionContentType sectionType.
           doesSectionFormatHaveLeadingZeros H (BuildSectionsFromFormatParams.utils p)
             (timezone p) sectionContentType sectionType token =
           doesSectionFormatHaveLeadingZeros H (BuildSectionsFromFormatParams.utils q)
             (timezone p) sectionContentType sectionType token"
  shows "createSection H p nowp token sep = createSection H q nowq token sep"
proof -
  have placeholder:
    "getSectionPlaceholder (BuildSectionsFromFormatParams.utils p) (timezone p) (localeText p)
       (getDateSectionConfigFromFormatToken H (BuildSectionsFromFormatParams.utils p) token) token =
     getSectionPlaceholder (BuildSectionsFromFormatParams.utils q) (timezone q) (localeText q)
       (getDateSectionConfigFromFormatToken H (BuildSectionsFromFormatParams.utils q) token) token"
    using assms(1,3,9,10)
    by (simp add: getSectionPlaceholder_def split: FieldSectionType.splits)
  show ?thesis
    unfolding createSection_def Let_def placeholder
    using assms(1,2,4,5,6,7,8,10,11)
    by (auto split: option.splits)
qed

text \<open>A token that the loop commits is a key of the token map.\<close>

lemma isTokenStartRegExp_test_key:
  assumes "isTokenStartRegExp_test keys lastIndex s = (True, n)"
  shows "take n s = [] \<or> take n s \<in> set keys"
proof (cases "keys = []")
  case True
  with assms show ?thesis
    by (auto simp: isTokenStartRegExp_test_def tokenStartLength_def split: if_splits)
next
  case False
  with assms obtain k where k: "List.find (\<lambda>k. prefix k s) (sortedTokens keys) = Some k"
    and n: "n = length k"
    by (auto simp: isTokenStartRegExp_test_def tokenStartLength_def
          split: if_splits option.splits)
  from k have "prefix k s" and "k \<in> set (sortedTokens keys)"
    by (auto simp: find_Some_iff)
  then have "take n s = k" and "k \<in> set keys"
    using n by (auto simp: prefix_def sortedTokens_def)
  then show ?thesis by simp
qed


text \<open>
  Two runs of the loop with the same keys and the same sections for the keys: when one
  returns, the other returns the same. The induction is on the run that returns.
\<close>

lemma buildSections_loop_reads:
  fixes p q :: "'date BuildSectionsFromFormatParams"
  assumes keys: "formatTokenMap (BuildSectionsFromFormatParams.utils p) =
                 formatTokenMap (BuildSectionsFromFormatParams.utils q)"
    and sections: "\<And>token sep. token \<in> set (formatTokenMap (BuildSectionsFromFormatParams.utils p))
                     \<Longrightarrow> createSection H p nowp token sep = createSection H q nowq token sep"
    and returns: "buildSections_loop H p expandedFormat escapedParts nowp state = Some y"
    and token: "case state of (i, secs, sep, cur, li) \<Rightarrow>
                  cur = [] \<or> cur \<in> set (formatTokenMap (BuildSectionsFromFormatParams.utils p))"
  shows "buildSections_loop H q expandedFormat escapedParts nowq state = Some y \<and>
         (case y of
            Inl e \<Rightarrow> True
          | Inr (secs, sep, cur) \<Rightarrow>
              cur = [] \<or> cur \<in> set (formatTokenMap (BuildSectionsFromFormatParams.utils p)))"
proof -
  let ?keys = "formatTokenMap (BuildSectionsFromFormatParams.utils p)"
  let ?P = "\<lambda>H' params expandedFormat escapedParts now state y.
     H' = H \<longrightarrow> params = p \<longrightarrow> now = nowp \<longrightarrow>
     (case state of (i, secs, sep, cur, li) \<Rightarrow> cur = [] \<or> cur \<in> set ?keys) \<longrightarrow>
     buildSections_loop H q expandedFormat escapedParts nowq state = Some y \<and>
     (case y of Inl e \<Rightarrow> True | Inr (secs, sep, cur) \<Rightarrow> cur = [] \<or> cur \<in> set ?keys)"
  have "?P H p expandedFormat escapedParts nowp state y"
  proof (rule buildSections_loop.raw_induct [where P = ?P, OF _ returns], goal_cases)
    case (1 loop H' params expandedFormat escapedParts now state y)
    show ?case
    proof (intro impI)
      assume eqs: "H' = H" "params = p" "now = nowp"
        and inv: "case state of (i, secs, sep, cur, li) \<Rightarrow> cur = [] \<or> cur \<in> set ?keys"
      note IH = 1(1) [rule_format]
      obtain i secs sep cur li where state: "state = (i, secs, sep, cur, li)"
        by (cases state) auto
      from inv state have cur: "cur = [] \<or> cur \<in> set ?keys" by simp
      note run = 1(2) [unfolded state eqs, simplified]
      show "buildSections_loop H q expandedFormat escapedParts nowq state = Some y \<and>
            (case y of Inl e \<Rightarrow> True
             | Inr (secs, sep, cur) \<Rightarrow> cur = [] \<or> cur \<in> set ?keys)"
      proof (cases "i < length expandedFormat")
        case False
        with run cur show ?thesis
          unfolding state by (subst buildSections_loop.simps) auto
      next
        case True
        obtain m n where test:
          "isTokenStartRegExp_test ?keys li (cur @ drop i expandedFormat) = (m, n)"
          by (cases "isTokenStartRegExp_test ?keys li (cur @ drop i expandedFormat)")
        show ?thesis
        proof (cases "List.find (\<lambda>(start, end). start \<le> i \<and> end \<ge> i) escapedParts = None \<and>
                      isLetter (expandedFormat ! i) \<and> m")
          case token: True
          from token test isTokenStartRegExp_test_key [of ?keys li "cur @ drop i expandedFormat" n]
          have ok: "take n (cur @ drop i expandedFormat) = [] \<or>
                    take n (cur @ drop i expandedFormat) \<in> set ?keys" by simp
          from run True test token
          have "loop H p expandedFormat escapedParts nowp
                  (i + n, secs, sep, take n (cur @ drop i expandedFormat), n) = Some y"
            by (simp add: Let_def)
          from IH [OF this refl refl refl] ok
          have "buildSections_loop H q expandedFormat escapedParts nowq
                  (i + n, secs, sep, take n (cur @ drop i expandedFormat), n) = Some y \<and>
                (case y of Inl e \<Rightarrow> True
                 | Inr (secs, sep, cur) \<Rightarrow> cur = [] \<or> cur \<in> set ?keys)"
            by simp
          then show ?thesis
            unfolding state using True test token keys
            by (subst buildSections_loop.simps) (simp add: Let_def)
        next
          case other: False
          show ?thesis
          proof (cases "case List.find (\<lambda>(start, end). start \<le> i \<and> end \<ge> i) escapedParts of
                          None \<Rightarrow> False | Some (start, end) \<Rightarrow> start = i \<or> end = i")
            case boundary: True
            from run True test other boundary
            have "loop H p expandedFormat escapedParts nowp (i + 1, secs, sep, cur, n) = Some y"
              by (auto simp: Let_def)
            from IH [OF this refl refl refl] cur
            have "buildSections_loop H q expandedFormat escapedParts nowq
                    (i + 1, secs, sep, cur, n) = Some y \<and>
                  (case y of Inl e \<Rightarrow> True
                   | Inr (secs, sep, cur) \<Rightarrow> cur = [] \<or> cur \<in> set ?keys)"
              by simp
            then show ?thesis
              unfolding state using True test other boundary keys
              by (subst buildSections_loop.simps) (auto simp: Let_def)
          next
            case inner: False
            let ?made = "if cur \<noteq> [] then
                           map_sum id (\<lambda>section. secs @ [section]) (createSection H p nowp cur sep)
                         else Inr secs"
            have made: "(if cur \<noteq> [] then
                           map_sum id (\<lambda>section. secs @ [section]) (createSection H q nowq cur sep)
                         else Inr secs) = ?made"
              using cur sections [of cur sep] by auto
            show ?thesis
            proof (cases ?made)
              case (Inl e)
              with run True test other inner have y: "y = Inl e"
                by (auto simp: Let_def)
              show ?thesis
                unfolding state y using True test other inner keys made Inl
                by (subst buildSections_loop.simps) (auto simp: Let_def)
            next
              case (Inr secs')
              let ?next = "if length secs' = 0
                           then (i + 1, secs', sep @ [expandedFormat ! i], [], n)
                           else (i + 1, appendToLastEndSeparator secs' (expandedFormat ! i), [], [], n)"
              from run True test other inner Inr
              have "loop H p expandedFormat escapedParts nowp ?next = Some y"
                by (auto simp: Let_def split: if_splits)
              from IH [OF this refl refl refl]
              have "buildSections_loop H q expandedFormat escapedParts nowq ?next = Some y \<and>
                    (case y of Inl e \<Rightarrow> True
                     | Inr (secs, sep, cur) \<Rightarrow> cur = [] \<or> cur \<in> set ?keys)"
                by (simp split: if_splits)
              then show ?thesis
                unfolding state using True test other inner keys made Inr
                by (subst buildSections_loop.simps) (auto simp: Let_def split: if_splits)
            qed
          qed
        qed
      qed
    qed
  qed
  with token show ?thesis by simp
qed


lemma buildSections_reads:
  fixes p q :: "'date BuildSectionsFromFormatParams"
  assumes keys: "formatTokenMap (BuildSectionsFromFormatParams.utils p) =
                 formatTokenMap (BuildSectionsFromFormatParams.utils q)"
    and sections:
      "\<And>token sep. token \<in> set (formatTokenMap (BuildSectionsFromFormatParams.utils p)) \<Longrightarrow>
         createSection H p (MuiPickersAdapter.date (BuildSectionsFromFormatParams.utils p) None)
           token sep =
         createSection H q (MuiPickersAdapter.date (BuildSectionsFromFormatParams.utils q) None)
           token sep"
  shows "buildSections H p expandedFormat escapedParts =
         buildSections H q expandedFormat escapedParts"
proof -
  let ?nowp = "MuiPickersAdapter.date (BuildSectionsFromFormatParams.utils p) None"
  let ?nowq = "MuiPickersAdapter.date (BuildSectionsFromFormatParams.utils q) None"
  let ?keys = "formatTokenMap (BuildSectionsFromFormatParams.utils p)"
  let ?lp = "buildSections_loop H p expandedFormat escapedParts ?nowp (0, [], [], [], 0)"
  let ?lq = "buildSections_loop H q expandedFormat escapedParts ?nowq (0, [], [], [], 0)"
  have forward: "?lq = Some y \<and>
      (case y of Inl e \<Rightarrow> True | Inr (secs, sep, cur) \<Rightarrow> cur = [] \<or> cur \<in> set ?keys)"
    if "?lp = Some y" for y
    by (rule buildSections_loop_reads [OF keys sections that]) simp_all
  have backward: "?lp = Some y" if "?lq = Some y" for y
  proof -
    have "createSection H q ?nowq token sep = createSection H p ?nowp token sep"
      if "token \<in> set (formatTokenMap (BuildSectionsFromFormatParams.utils q))" for token sep
      using sections [of token sep] that keys by simp
    from buildSections_loop_reads [OF keys [symmetric] this \<open>?lq = Some y\<close>]
    show ?thesis by simp
  qed
  show ?thesis
  proof (cases ?lp)
    case None
    with backward have "?lq = None" by (cases ?lq) auto
    with None show ?thesis by (simp add: buildSections_def)
  next
    case (Some y)
    note result = forward [OF Some]
    show ?thesis
    proof (cases y)
      case (Inl e)
      with Some result show ?thesis by (simp add: buildSections_def)
    next
      case (Inr loopResult)
      obtain secs sep cur where loopResult: "loopResult = (secs, sep, cur)"
        by (cases loopResult) auto
      from result Inr loopResult have "cur = [] \<or> cur \<in> set ?keys" by simp
      then have "(if cur \<noteq> [] then
                    map_sum id (\<lambda>section. secs @ [section]) (createSection H p ?nowp cur sep)
                  else Inr secs) =
                 (if cur \<noteq> [] then
                    map_sum id (\<lambda>section. secs @ [section]) (createSection H q ?nowq cur sep)
                  else Inr secs)"
        using sections [of cur sep] by auto
      with Some result Inr loopResult show ?thesis
        by (simp add: buildSections_def Let_def)
    qed
  qed
qed

text \<open>
  C7, amended. The outcome of the parser is a function of what it reads, and it reads more
  than the claim lists. Take two runs with the same helpers whose parameters agree on the
  format, the density, the two direction flags, the timezone, the leading-zeros flag, the
  locale text, the localized digits and the date, and whose adapters agree on the
  expansion rule, the escape characters, the token map, the validity of the date and, for
  every key of the token map, on the formatted text of the date, on the answers of the two
  helpers, and on the length of the formatted current date, read from the clock without a
  timezone and with the timezone of the parameters. Then the two runs have the same
  outcome: the same sections, the same error, or no return for both. The adapters may
  differ in everything else, and the clocks may give different dates. Nothing is kept from
  one run to the next: the token expression and its \<^verbatim>\<open>lastIndex\<close> are made anew by each
  run, which is why the state of the loop starts at 0.
\<close>

theorem buildSectionsFromFormat_reads:
  fixes p q :: "'date BuildSectionsFromFormatParams"
  assumes format: "BuildSectionsFromFormatParams.format p = BuildSectionsFromFormatParams.format q"
    and formatDensity: "formatDensity p = formatDensity q"
    and isRTL: "isRTL p = isRTL q"
    and timezone: "timezone p = timezone q"
    and shouldRespectLeadingZeros: "shouldRespectLeadingZeros p = shouldRespectLeadingZeros q"
    and localeText: "localeText p = localeText q"
    and localizedDigits: "localizedDigits p = localizedDigits q"
    and date: "BuildSectionsFromFormatParams.date p = BuildSectionsFromFormatParams.date q"
    and enableAccessibleFieldDOMStructure:
      "enableAccessibleFieldDOMStructure p = enableAccessibleFieldDOMStructure q"
    and expansion:
      "MuiPickersAdapter.expandFormat (BuildSectionsFromFormatParams.utils p) =
       MuiPickersAdapter.expandFormat (BuildSectionsFromFormatParams.utils q)"
    and escapedCharacters:
      "escapedCharacters (BuildSectionsFromFormatParams.utils p) =
       escapedCharacters (BuildSectionsFromFormatParams.utils q)"
    and formatTokenMap:
      "formatTokenMap (BuildSectionsFromFormatParams.utils p) =
       formatTokenMap (BuildSectionsFromFormatParams.utils q)"
    and isValid:
      "isValid (BuildSectionsFromFormatParams.utils p) (BuildSectionsFromFormatParams.date p) =
       isValid (BuildSectionsFromFormatParams.utils q) (BuildSectionsFromFormatParams.date p)"
    and formattedDate:
      "\<forall>token\<in>set (formatTokenMap (BuildSectionsFromFormatParams.utils p)).
         \<forall>d. BuildSectionsFromFormatParams.date p = Some d \<longrightarrow>
           formatByString (BuildSectionsFromFormatParams.utils p) d token =
           formatByString (BuildSectionsFromFormatParams.utils q) d token"
    and lengthNow:
      "\<forall>token\<in>set (formatTokenMap (BuildSectionsFromFormatParams.utils p)).
         \<forall>zone\<in>{None, Some (timezone p)}.
           length (formatByString (BuildSectionsFromFormatParams.utils p)
                     (MuiPickersAdapter.date (BuildSectionsFromFormatParams.utils p) zone) token) =
           length (formatByString (BuildSectionsFromFormatParams.utils q)
                     (MuiPickersAdapter.date (BuildSectionsFromFormatParams.utils q) zone) token)"
    and sectionConfig:
      "\<forall>token\<in>set (formatTokenMap (BuildSectionsFromFormatParams.utils p)).
         getDateSectionConfigFromFormatToken H (BuildSectionsFromFormatParams.utils p) token =
         getDateSectionConfigFromFormatToken H (BuildSectionsFromFormatParams.utils q) token"
    and leadingZeros:
      "\<forall>token\<in>set (formatTokenMap (BuildSectionsFromFormatParams.utils p)).
         \<forall>sectionContentType sectionType.
           doesSectionFormatHaveLeadingZeros H (BuildSectionsFromFormatParams.utils p)
             (timezone p) sectionContentType sectionType token =
           doesSectionFormatHaveLeadingZeros H (BuildSectionsFromFormatParams.utils q)
             (timezone p) sectionContentType sectionType token"
  shows "buildSectionsFromFormat H p = buildSectionsFromFormat H q"
proof -
  have expanded: "expandFormat p = expandFormat q"
    using format expansion by (simp add: expandFormat_def Let_def)
  have escaped: "getEscapedPartsFromFormat p = getEscapedPartsFromFormat q"
    using escapedCharacters by (simp add: getEscapedPartsFromFormat_def fun_eq_iff Let_def)
  have post: "postProcessSections p = postProcessSections q"
    using isRTL formatDensity by (simp add: postProcessSections_def fun_eq_iff)
  have created:
    "createSection H p (MuiPickersAdapter.date (BuildSectionsFromFormatParams.utils p) None)
       token sep =
     createSection H q (MuiPickersAdapter.date (BuildSectionsFromFormatParams.utils q) None)
       token sep"
    if "token \<in> set (formatTokenMap (BuildSectionsFromFormatParams.utils p))" for token sep
    using timezone shouldRespectLeadingZeros localeText localizedDigits date isValid
  proof (rule createSection_reads)
    show "\<forall>d. BuildSectionsFromFormatParams.date p = Some d \<longrightarrow>
            formatByString (BuildSectionsFromFormatParams.utils p) d token =
            formatByString (BuildSectionsFromFormatParams.utils q) d token"
      using formattedDate that by blast
    show "length (formatByString (BuildSectionsFromFormatParams.utils p)
                    (MuiPickersAdapter.date (BuildSectionsFromFormatParams.utils p) None) token) =
          length (formatByString (BuildSectionsFromFormatParams.utils q)
                    (MuiPickersAdapter.date (BuildSectionsFromFormatParams.utils q) None) token)"
      using lengthNow that by blast
    show "length (formatByString (BuildSectionsFromFormatParams.utils p)
                    (MuiPickersAdapter.date (BuildSectionsFromFormatParams.utils p)
                       (Some (timezone p))) token) =
          length (formatByString (BuildSectionsFromFormatParams.utils q)
                    (MuiPickersAdapter.date (BuildSectionsFromFormatParams.utils q)
                       (Some (timezone p))) token)"
      using lengthNow that by blast
    show "getDateSectionConfigFromFormatToken H (BuildSectionsFromFormatParams.utils p) token =
          getDateSectionConfigFromFormatToken H (BuildSectionsFromFormatParams.utils q) token"
      using sectionConfig that by blast
    show "\<forall>sectionContentType sectionType.
            doesSectionFormatHaveLeadingZeros H (BuildSectionsFromFormatParams.utils p)
              (timezone p) sectionContentType sectionType token =
            doesSectionFormatHaveLeadingZeros H (BuildSectionsFromFormatParams.utils q)
              (timezone p) sectionContentType sectionType token"
      using leadingZeros that by blast
  qed
  have built: "buildSections H p expandedFormat escapedParts =
               buildSections H q expandedFormat escapedParts" for expandedFormat escapedParts
    using formatTokenMap created by (rule buildSections_reads)
  show ?thesis
    unfolding buildSectionsFromFormat_def expanded escaped post built
      isRTL enableAccessibleFieldDOMStructure
    by (rule refl)
qed

text \<open>
  The format \<^verbatim>\<open>MM/dd/yyyy\<close> with the date 15 March 2023, parsed with the example adapter
  and with the adapter whose clock gives another date.
\<close>

theorem buildSectionsFromFormat_reads_witness:
  "MuiPickersAdapter.date demoUtils None \<noteq> MuiPickersAdapter.date demoUtilsLater None \<and>
   buildSectionsFromFormat demoFieldUtils
     (demoParamsOf demoUtils ''MM/dd/yyyy'' (DateTime 2023 3 15 10 30 0)) =
   buildSectionsFromFormat demoFieldUtils
     (demoParamsOf demoUtilsLater ''MM/dd/yyyy'' (DateTime 2023 3 15 10 30 0))"
proof -
  let ?p = "demoParamsOf demoUtils ''MM/dd/yyyy'' (DateTime 2023 3 15 10 30 0)"
  let ?q = "demoParamsOf demoUtilsLater ''MM/dd/yyyy'' (DateTime 2023 3 15 10 30 0)"
  have clocks: "MuiPickersAdapter.date demoUtils None \<noteq> MuiPickersAdapter.date demoUtilsLater None"
    by (simp add: demoUtils_def demoUtilsLater_def demoNow_def)
  have fields:
    "BuildSectionsFromFormatParams.format ?p = BuildSectionsFromFormatParams.format ?q"
    "formatDensity ?p = formatDensity ?q"
    "isRTL ?p = isRTL ?q"
    "timezone ?p = timezone ?q"
    "shouldRespectLeadingZeros ?p = shouldRespectLeadingZeros ?q"
    "localeText ?p = localeText ?q"
    "localizedDigits ?p = localizedDigits ?q"
    "BuildSectionsFromFormatParams.date ?p = BuildSectionsFromFormatParams.date ?q"
    "enableAccessibleFieldDOMStructure ?p = enableAccessibleFieldDOMStructure ?q"
    by (simp_all add: demoParamsOf_def)
  have adapters:
    "BuildSectionsFromFormatParams.utils ?p = demoUtils"
    "BuildSectionsFromFormatParams.utils ?q = demoUtilsLater"
    "BuildSectionsFromFormatParams.date ?p = Some (DateTime 2023 3 15 10 30 0)"
    by (simp_all add: demoParamsOf_def)
  have keys: "formatTokenMap demoUtils =
                [''yyyy'', ''MM'', ''dd'', ''hh'', ''mm'', ''ss'', ''aa'', ''M'', ''d'']"
    by (simp add: demoUtils_def)
  have reads:
    "MuiPickersAdapter.expandFormat (BuildSectionsFromFormatParams.utils ?p) =
     MuiPickersAdapter.expandFormat (BuildSectionsFromFormatParams.utils ?q)"
    "escapedCharacters (BuildSectionsFromFormatParams.utils ?p) =
     escapedCharacters (BuildSectionsFromFormatParams.utils ?q)"
    "formatTokenMap (BuildSectionsFromFormatParams.utils ?p) =
     formatTokenMap (BuildSectionsFromFormatParams.utils ?q)"
    "isValid (BuildSectionsFromFormatParams.utils ?p) (BuildSectionsFromFormatParams.date ?p) =
     isValid (BuildSectionsFromFormatParams.utils ?q) (BuildSectionsFromFormatParams.date ?p)"
    unfolding adapters by (simp_all add: demoUtilsLater_def)
  have formatted:
    "\<forall>token\<in>set (formatTokenMap (BuildSectionsFromFormatParams.utils ?p)).
       \<forall>d. BuildSectionsFromFormatParams.date ?p = Some d \<longrightarrow>
         formatByString (BuildSectionsFromFormatParams.utils ?p) d token =
         formatByString (BuildSectionsFromFormatParams.utils ?q) d token"
    unfolding adapters by (simp add: demoUtilsLater_def)
  have lengths:
    "\<forall>token\<in>set (formatTokenMap (BuildSectionsFromFormatParams.utils ?p)).
       \<forall>zone\<in>{None, Some (timezone ?p)}.
         length (formatByString (BuildSectionsFromFormatParams.utils ?p)
                   (MuiPickersAdapter.date (BuildSectionsFromFormatParams.utils ?p) zone) token) =
         length (formatByString (BuildSectionsFromFormatParams.utils ?q)
                   (MuiPickersAdapter.date (BuildSectionsFromFormatParams.utils ?q) zone) token)"
    unfolding adapters keys
    by (simp add: demoUtilsLater_def demoUtils_def demoFormatByString_def pad2_def pad4_def)
  have config:
    "\<forall>token\<in>set (formatTokenMap (BuildSectionsFromFormatParams.utils ?p)).
       getDateSectionConfigFromFormatToken demoFieldUtils
         (BuildSectionsFromFormatParams.utils ?p) token =
       getDateSectionConfigFromFormatToken demoFieldUtils
         (BuildSectionsFromFormatParams.utils ?q) token"
    by (simp add: demoFieldUtils_def)
  have zeros:
    "\<forall>token\<in>set (formatTokenMap (BuildSectionsFromFormatParams.utils ?p)).
       \<forall>sectionContentType sectionType.
         doesSectionFormatHaveLeadingZeros demoFieldUtils
           (BuildSectionsFromFormatParams.utils ?p) (timezone ?p)
           sectionContentType sectionType token =
         doesSectionFormatHaveLeadingZeros demoFieldUtils
           (BuildSectionsFromFormatParams.utils ?q) (timezone ?p)
           sectionContentType sectionType token"
    by (simp add: demoFieldUtils_def)
  from buildSectionsFromFormat_reads [OF fields reads formatted lengths config zeros] clocks
  show ?thesis by simp
qed

section \<open>Properties of the section state engine\<close>

subsection \<open>The paths of updateSectionValue\<close>

lemma updateSectionValue_valid_date:
  assumes "activeDate (getActiveDateManager (fieldValueManager hook) (UseField.utils hook) state
             (activeSection params)) = Some d"
    and "isValid (UseField.utils hook) (Some d)"
  shows "updateSectionValue hook state selectedSections params =
     Inr (let (prevState, effects) =
                collapseSelection (selectedSectionIndexes selectedSections state) state;
              (newState, published) =
                publishValue hook state
                  (getNewValueFromNewActiveDate
                     (getActiveDateManager (fieldValueManager hook) (UseField.utils hook) state
                        (activeSection params))
                     (Some (setSectionValueOnDate params d
                        (getSectionBoundaries hook (UseField.utils hook)))))
                  prevState
          in (newState, effects @ published))"
  using assms by (simp add: updateSectionValue_def Let_def split: prod.splits)

lemma updateSectionValue_no_selection:
  assumes "activeDate (getActiveDateManager (fieldValueManager hook) (UseField.utils hook) state
             (activeSection params)) = None \<or>
           \<not> isValid (UseField.utils hook)
               (activeDate (getActiveDateManager (fieldValueManager hook) (UseField.utils hook)
                  state (activeSection params)))"
    and "selectedSectionIndexes selectedSections state = None"
  shows "updateSectionValue hook state selectedSections params = Inl NullPropertyAccess"
  using assms
  by (auto simp: updateSectionValue_def updateSectionValueOnSections_def Let_def
        split: prod.splits)

lemma updateSectionValue_invalid_date:
  assumes "activeDate (getActiveDateManager (fieldValueManager hook) (UseField.utils hook) state
             (activeSection params)) = None \<or>
           \<not> isValid (UseField.utils hook)
               (activeDate (getActiveDateManager (fieldValueManager hook) (UseField.utils hook)
                  state (activeSection params)))"
    and "selectedSectionIndexes selectedSections state = Some indexes"
  shows "updateSectionValue hook state selectedSections params =
          (let newSections =
                 setSectionValue hook state (startIndex indexes)
                   (setSectionValueOnSections params
                      (getSectionBoundaries hook (UseField.utils hook)));
               adm = getActiveDateManager (fieldValueManager hook) (UseField.utils hook) state
                       (activeSection params);
               (prevState, effects) = collapseSelection (Some indexes) state;
               activeDateSections =
                 getActiveDateSections (fieldValueManager hook) newSections (activeSection params);
               newDate = parseActiveDateSections hook activeDateSections
           in case newDate of
                Some d \<Rightarrow>
                  if isValid (UseField.utils hook) newDate then
                    (let (newState, published) =
                           publishValue hook state
                             (getNewValueFromNewActiveDate adm
                                (Some (mergeDateIntoReferenceDate (UseField.utils hook)
                                         (referenceActiveDate adm) d activeDateSections)))
                             prevState
                     in Inr (newState, effects @ published))
                  else
                    Inr (prevState\<lparr>sections := newSections,
                                   tempValueStrAndroid := None,
                                   value := fst (getNewValueFromNewActiveDate adm newDate),
                                   referenceValue :=
                                     snd (getNewValueFromNewActiveDate adm newDate)\<rparr>,
                         effects)
              | None \<Rightarrow>
                  Inr (prevState\<lparr>sections := newSections,
                                 tempValueStrAndroid := None,
                                 value := fst (getNewValueFromNewActiveDate adm None),
                                 referenceValue :=
                                   snd (getNewValueFromNewActiveDate adm None)\<rparr>,
                       effects))"
  using assms
  by (auto simp: updateSectionValue_def updateSectionValueOnSections_def Let_def
        split: prod.splits option.splits)


lemma setSectionValue_in_range:
  "0 \<le> startIndex indexes \<Longrightarrow> startIndex indexes < int (length (sections state)) \<Longrightarrow>
     setSectionValue hook state (startIndex indexes)
       (setSectionValueOnSections params (getSectionBoundaries hook (UseField.utils hook))) =
     editedSections hook state indexes params"
  by (simp add: setSectionValue_def editedSections_def sectionAt_def writeSection_def Let_def)

lemma collapseSelection_result:
  assumes "collapseSelection indexes state = (prevState, effects)"
  shows "tempValueStrAndroid prevState = tempValueStrAndroid state"
    and "sections prevState = sections state"
    and "OnChange v \<notin> set effects"
  using assms
  by (auto simp: collapseSelection_def setSelectedSections_def split: option.splits if_splits)

lemma updateSectionValue_merged:
  assumes "activeDate (activeDateManagerOf hook state params) = None \<or>
           \<not> isValid (UseField.utils hook) (activeDate (activeDateManagerOf hook state params))"
    and "selectedSectionIndexes selectedSections state = Some indexes"
    and "0 \<le> startIndex indexes" "startIndex indexes < int (length (sections state))"
    and "parseActiveDateSections hook (editedActiveDateSections hook state indexes params) =
           Some candidate"
    and "isValid (UseField.utils hook) (Some candidate)"
  shows "updateSectionValue hook state selectedSections params =
     Inr (let (prevState, effects) = collapseSelection (Some indexes) state;
              (newState, published) =
                publishValue hook state
                  (getNewValueFromNewActiveDate (activeDateManagerOf hook state params)
                     (Some (mergeDateIntoReferenceDate (UseField.utils hook)
                              (referenceActiveDate (activeDateManagerOf hook state params))
                              candidate (editedActiveDateSections hook state indexes params))))
                  prevState
          in (newState, effects @ published))"
proof -
  note inv = assms(1) [unfolded activeDateManagerOf_def]
  show ?thesis
    unfolding updateSectionValue_invalid_date [OF inv assms(2)]
      setSectionValue_in_range [OF assms(3,4)]
    using assms(5,6)
    by (simp add: editedActiveDateSections_def activeDateManagerOf_def Let_def
          split: prod.splits)
qed

lemma updateSectionValue_not_merged:
  assumes "activeDate (activeDateManagerOf hook state params) = None \<or>
           \<not> isValid (UseField.utils hook) (activeDate (activeDateManagerOf hook state params))"
    and "selectedSectionIndexes selectedSections state = Some indexes"
    and "0 \<le> startIndex indexes" "startIndex indexes < int (length (sections state))"
    and "parseActiveDateSections hook (editedActiveDateSections hook state indexes params) = None \<or>
         \<not> isValid (UseField.utils hook)
             (parseActiveDateSections hook (editedActiveDateSections hook state indexes params))"
  shows "updateSectionValue hook state selectedSections params =
     Inr ((fst (collapseSelection (Some indexes) state))
            \<lparr>sections := editedSections hook state indexes params,
             tempValueStrAndroid := None,
             value :=
               fst (getNewValueFromNewActiveDate (activeDateManagerOf hook state params)
                      (parseActiveDateSections hook
                         (editedActiveDateSections hook state indexes params))),
             referenceValue :=
               snd (getNewValueFromNewActiveDate (activeDateManagerOf hook state params)
                      (parseActiveDateSections hook
                         (editedActiveDateSections hook state indexes params)))\<rparr>,
          snd (collapseSelection (Some indexes) state))"
proof -
  note inv = assms(1) [unfolded activeDateManagerOf_def]
  show ?thesis
    unfolding updateSectionValue_invalid_date [OF inv assms(2)]
      setSectionValue_in_range [OF assms(3,4)]
    using assms(5)
    by (auto simp: editedActiveDateSections_def activeDateManagerOf_def Let_def
          split: prod.splits option.splits)
qed


lemma collapseSelection_no_change:
  "OnChange v \<notin> set (snd (collapseSelection indexes state))"
  by (simp add: collapseSelection_def setSelectedSections_def split: option.splits)

lemma updateSectionValue_temp:
  assumes "updateSectionValue hook state selectedSections params = Inr (state', effects)"
  shows "tempValueStrAndroid state' = None"
proof (cases "isValid (UseField.utils hook)
                (activeDate (getActiveDateManager (fieldValueManager hook) (UseField.utils hook)
                   state (activeSection params))) \<and>
              activeDate (getActiveDateManager (fieldValueManager hook) (UseField.utils hook)
                   state (activeSection params)) \<noteq> None")
  case True
  then obtain d where
    "activeDate (getActiveDateManager (fieldValueManager hook) (UseField.utils hook) state
       (activeSection params)) = Some d" "isValid (UseField.utils hook) (Some d)"
    by auto
  from updateSectionValue_valid_date [OF this, of selectedSections] assms show ?thesis
    by (auto simp: publishValue_def Let_def split: prod.splits)
next
  case False
  then have invalid:
    "activeDate (getActiveDateManager (fieldValueManager hook) (UseField.utils hook) state
       (activeSection params)) = None \<or>
     \<not> isValid (UseField.utils hook)
         (activeDate (getActiveDateManager (fieldValueManager hook) (UseField.utils hook)
            state (activeSection params)))"
    by auto
  show ?thesis
  proof (cases "selectedSectionIndexes selectedSections state")
    case None
    with updateSectionValue_no_selection [OF invalid None] assms show ?thesis by simp
  next
    case (Some indexes)
    from updateSectionValue_invalid_date [OF invalid Some] assms show ?thesis
      by (auto simp: publishValue_def Let_def
            split: sum.splits prod.splits option.splits if_splits)
  qed
qed

lemma updateSectionValue_published:
  assumes "updateSectionValue hook state selectedSections params = Inr (state', effects)"
    and "OnChange v \<in> set effects"
  shows "UseFieldState.value state' = v \<and>
         sections state' =
           getSectionsFromValue (fieldValueManager hook) (UseField.utils hook)
             (Some (sections state)) v (UseField.format hook)"
proof (cases "isValid (UseField.utils hook)
                (activeDate (getActiveDateManager (fieldValueManager hook) (UseField.utils hook)
                   state (activeSection params))) \<and>
              activeDate (getActiveDateManager (fieldValueManager hook) (UseField.utils hook)
                   state (activeSection params)) \<noteq> None")
  case True
  then obtain d where
    "activeDate (getActiveDateManager (fieldValueManager hook) (UseField.utils hook) state
       (activeSection params)) = Some d" "isValid (UseField.utils hook) (Some d)"
    by auto
  from updateSectionValue_valid_date [OF this, of selectedSections] assms show ?thesis
    by (auto simp: publishValue_def Let_def split: prod.splits
          dest: collapseSelection_result(3))
next
  case False
  then have invalid:
    "activeDate (getActiveDateManager (fieldValueManager hook) (UseField.utils hook) state
       (activeSection params)) = None \<or>
     \<not> isValid (UseField.utils hook)
         (activeDate (getActiveDateManager (fieldValueManager hook) (UseField.utils hook)
            state (activeSection params)))"
    by auto
  show ?thesis
  proof (cases "selectedSectionIndexes selectedSections state")
    case None
    with updateSectionValue_no_selection [OF invalid None] assms show ?thesis by simp
  next
    case (Some indexes)
    from updateSectionValue_invalid_date [OF invalid Some] assms show ?thesis
      by (auto simp: publishValue_def Let_def
            split: sum.splits prod.splits option.splits if_splits
            dest: collapseSelection_result(3))
  qed
qed

subsection \<open>The merge of the candidate date\<close>

lemma merge_only_month:
  assumes "\<forall>section\<in>set activeDateSections. edited section \<longrightarrow> dateSectionName section = Month"
    and "\<forall>d. g d = g reference \<longrightarrow>
           g (setMonth adapter d (getMonth adapter candidate)) = g reference"
  shows "g (mergeDateIntoReferenceDate adapter reference candidate activeDateSections) =
           g reference"
  using assms(1)
proof (induction activeDateSections rule: rev_induct)
  case Nil
  then show ?case by (simp add: mergeDateIntoReferenceDate_def)
next
  case (snoc sec rest)
  then show ?case
    using assms(2)
    by (auto simp: mergeDateIntoReferenceDate_def applySectionValueToDate_def)
qed

lemma merge_sets_month:
  assumes "\<forall>section\<in>set activeDateSections. edited section \<longrightarrow> dateSectionName section = Month"
    and "\<exists>section\<in>set activeDateSections. edited section"
    and "\<forall>d. g d = g reference \<longrightarrow>
           g (setMonth adapter d (getMonth adapter candidate)) = g reference"
    and "\<forall>d. g d = g reference \<longrightarrow>
           getMonth adapter (setMonth adapter d (getMonth adapter candidate)) =
             getMonth adapter candidate"
  shows "getMonth adapter
           (mergeDateIntoReferenceDate adapter reference candidate activeDateSections) =
         getMonth adapter candidate"
  using assms(1,2)
proof (induction activeDateSections rule: rev_induct)
  case Nil
  then show ?case by simp
next
  case (snoc sec rest)
  show ?case
  proof (cases "edited sec")
    case True
    with snoc.prems(1) have month: "dateSectionName sec = Month" by simp
    from snoc.prems(1)
    have "\<forall>section\<in>set rest. edited section \<longrightarrow> dateSectionName section = Month" by simp
    then have "g (mergeDateIntoReferenceDate adapter reference candidate rest) = g reference"
      using assms(3) by (rule merge_only_month)
    with assms(4) True month show ?thesis
      by (simp add: mergeDateIntoReferenceDate_def applySectionValueToDate_def)
  next
    case False
    with snoc.prems have "\<forall>section\<in>set rest. edited section \<longrightarrow> dateSectionName section = Month"
      and "\<exists>section\<in>set rest. edited section" by auto
    then have "getMonth adapter (mergeDateIntoReferenceDate adapter reference candidate rest) =
                 getMonth adapter candidate"
      by (rule snoc.IH)
    with False show ?thesis by (simp add: mergeDateIntoReferenceDate_def)
  qed
qed

text \<open>
  C1, at an input where the code departs from it. The reference value is 31 January 2023,
  10:30. The month section is cleared and \<^verbatim>\<open>02\<close> is typed: the month section is the only
  section marked as edited, and the candidate date parsed from the sections (after the
  day-clamp recovery, since February has no day 31) is valid. The published date is
  28 February 2023, 10:30: the merge sets the month of the reference date through the
  adapter, and the adapter keeps the date on the calendar, so the day of the published
  value is 28 and not the 31 of the reference value.
\<close>

theorem month_edit_changes_day:
  "referenceValue (demoStateAfterClear ''MM/dd/yyyy'' (DateTime 2023 1 31 10 30 0) 0)
     = Some (DateTime 2023 1 31 10 30 0) \<and>
   map (\<lambda>section. (dateSectionName section, TSection.value section, edited section))
     (editedActiveDateSections (demoHook ''MM/dd/yyyy'')
        (demoStateAfterClear ''MM/dd/yyyy'' (DateTime 2023 1 31 10 30 0) 0)
        \<lparr>startIndex = 0, endIndex = 0\<rparr> (demoEdit (demoSection Month ''MM'' ''/'') ''02''))
     = [(Month, ''02'', True), (Day, ''31'', False), (Year, ''2023'', False)] \<and>
   parseActiveDateSections (demoHook ''MM/dd/yyyy'')
     (editedActiveDateSections (demoHook ''MM/dd/yyyy'')
        (demoStateAfterClear ''MM/dd/yyyy'' (DateTime 2023 1 31 10 30 0) 0)
        \<lparr>startIndex = 0, endIndex = 0\<rparr> (demoEdit (demoSection Month ''MM'' ''/'') ''02''))
     = Some (DateTime 2023 2 28 0 0 0) \<and>
   map_sum id snd
     (updateSectionValue (demoHook ''MM/dd/yyyy'')
        (demoStateAfterClear ''MM/dd/yyyy'' (DateTime 2023 1 31 10 30 0) 0) (SelectedIndex 0)
        (demoEdit (demoSection Month ''MM'' ''/'') ''02''))
     = Inr [OnChange (Some (DateTime 2023 2 28 10 30 0))] \<and>
   demoGetDate (DateTime 2023 2 28 10 30 0) \<noteq> demoGetDate (DateTime 2023 1 31 10 30 0)"
  by code_simp

text \<open>
  C1, amended. In the branch for an active date that is not valid, with a selection that
  denotes a section, let the candidate date parsed from the sections be valid, let every
  section of the active date that is marked as edited be a month section, and let at least
  one be marked. Let \<open>g\<close> be a component of a date (the year, the day, the hour, the
  minute, the second, or several of them) that the adapter's \<^verbatim>\<open>setMonth\<close> keeps when it
  sets the month of the candidate date on a date that has the value of \<open>g\<close> of the
  reference date, and let \<^verbatim>\<open>setMonth\<close> on such a date give a date with that month. Then
  the edit publishes the value of a merged date in which \<open>g\<close> has the value it has in
  the reference date and the month is the month of the candidate date. The day is such a
  component when the month of the candidate date has the day of the reference date; when
  it has not, the adapter decides the day, as in the example above.
\<close>

theorem month_edit_keeps_components_kept_by_setMonth:
  fixes hook :: "('date, 'value, 'z TSection_scheme, 'boundaries) UseField"
    and g :: "'date \<Rightarrow> 'a"
  assumes invalidActiveDate:
      "activeDate (activeDateManagerOf hook state params) = None \<or>
       \<not> isValid (UseField.utils hook) (activeDate (activeDateManagerOf hook state params))"
    and selection: "selectedSectionIndexes selectedSections state = Some indexes"
    and inRange: "0 \<le> startIndex indexes" "startIndex indexes < int (length (sections state))"
    and candidate:
      "parseActiveDateSections hook (editedActiveDateSections hook state indexes params) =
         Some candidate"
      "isValid (UseField.utils hook) (Some candidate)"
    and onlyMonth:
      "\<forall>section\<in>set (editedActiveDateSections hook state indexes params).
         edited section \<longrightarrow> dateSectionName section = Month"
    and monthEdited:
      "\<exists>section\<in>set (editedActiveDateSections hook state indexes params). edited section"
    and keeps:
      "\<forall>d. g d = g (referenceActiveDate (activeDateManagerOf hook state params)) \<longrightarrow>
         g (setMonth (UseField.utils hook) d (getMonth (UseField.utils hook) candidate)) =
           g (referenceActiveDate (activeDateManagerOf hook state params))"
    and setsMonth:
      "\<forall>d. g d = g (referenceActiveDate (activeDateManagerOf hook state params)) \<longrightarrow>
         getMonth (UseField.utils hook)
           (setMonth (UseField.utils hook) d (getMonth (UseField.utils hook) candidate)) =
         getMonth (UseField.utils hook) candidate"
  shows "\<exists>merged state'.
           updateSectionValue hook state selectedSections params =
             Inr (state',
                  snd (collapseSelection (Some indexes) state) @
                    [OnChange (fst (getNewValueFromNewActiveDate
                                      (activeDateManagerOf hook state params) (Some merged)))]) \<and>
           UseFieldState.value state' =
             fst (getNewValueFromNewActiveDate (activeDateManagerOf hook state params)
                    (Some merged)) \<and>
           g merged = g (referenceActiveDate (activeDateManagerOf hook state params)) \<and>
           getMonth (UseField.utils hook) merged = getMonth (UseField.utils hook) candidate"
proof -
  let ?merged =
    "mergeDateIntoReferenceDate (UseField.utils hook)
       (referenceActiveDate (activeDateManagerOf hook state params)) candidate
       (editedActiveDateSections hook state indexes params)"
  have "\<exists>state'. updateSectionValue hook state selectedSections params =
          Inr (state', snd (collapseSelection (Some indexes) state) @
                 [OnChange (fst (getNewValueFromNewActiveDate
                                   (activeDateManagerOf hook state params) (Some ?merged)))]) \<and>
          UseFieldState.value state' =
            fst (getNewValueFromNewActiveDate (activeDateManagerOf hook state params)
                   (Some ?merged))"
    unfolding updateSectionValue_merged [OF invalidActiveDate selection inRange candidate]
    by (simp add: publishValue_def Let_def split: prod.splits)
  moreover have "g ?merged = g (referenceActiveDate (activeDateManagerOf hook state params))"
    using onlyMonth keeps by (rule merge_only_month)
  moreover have "getMonth (UseField.utils hook) ?merged =
                   getMonth (UseField.utils hook) candidate"
    using onlyMonth monthEdited keeps setsMonth by (rule merge_sets_month)
  ultimately show ?thesis by blast
qed

text \<open>
  The month of 15 March 2023, 10:30, is cleared and \<^verbatim>\<open>07\<close> is typed: the candidate date
  is 15 July 2023 at 0:00, July has a day 15, and the published date has the month of the
  candidate date and the year, the day and the time of the reference date.
\<close>

theorem month_edit_keeps_components_kept_by_setMonth_witness:
  "\<exists>merged state'.
     updateSectionValue (demoHook ''MM/dd/yyyy'')
       (demoStateAfterClear ''MM/dd/yyyy'' (DateTime 2023 3 15 10 30 0) 0) (SelectedIndex 0)
       (demoEdit (demoSection Month ''MM'' ''/'') ''07'') = Inr (state', [OnChange (Some merged)]) \<and>
     (demoGetYear merged, demoGetDate merged, demoGetHours merged, demoGetMinutes merged,
      demoGetSeconds merged) = (2023, 15, 10, 30, 0) \<and>
     demoGetMonth merged = 7"
proof -
  let ?hook = "demoHook ''MM/dd/yyyy''"
  let ?state = "demoStateAfterClear ''MM/dd/yyyy'' (DateTime 2023 3 15 10 30 0) 0"
  let ?edit = "demoEdit (demoSection Month ''MM'' ''/'') ''07''"
  let ?indexes = "\<lparr>startIndex = 0, endIndex = 0\<rparr>"
  let ?g = "\<lambda>d. (demoGetYear d, demoGetDate d, demoGetHours d, demoGetMinutes d,
                 demoGetSeconds d)"
  have h1: "activeDate (activeDateManagerOf ?hook ?state ?edit) = None \<or>
            \<not> isValid (UseField.utils ?hook) (activeDate (activeDateManagerOf ?hook ?state ?edit))"
    by code_simp
  have h2: "selectedSectionIndexes (SelectedIndex 0) ?state = Some ?indexes"
    by code_simp
  have h3: "0 \<le> startIndex ?indexes" "startIndex ?indexes < int (length (sections ?state))"
    by code_simp+
  have h4: "parseActiveDateSections ?hook (editedActiveDateSections ?hook ?state ?indexes ?edit)
              = Some (DateTime 2023 7 15 0 0 0)"
    "isValid (UseField.utils ?hook) (Some (DateTime 2023 7 15 0 0 0))"
    by code_simp+
  have h5: "\<forall>section\<in>set (editedActiveDateSections ?hook ?state ?indexes ?edit).
              edited section \<longrightarrow> dateSectionName section = Month"
    by code_simp
  have h6: "\<exists>section\<in>set (editedActiveDateSections ?hook ?state ?indexes ?edit). edited section"
    by code_simp
  have ref: "?g (referenceActiveDate (activeDateManagerOf ?hook ?state ?edit))
               = (2023, 15, 10, 30, 0)"
    by code_simp
  have adapter: "UseField.utils ?hook = demoUtils"
    by (simp add: demoHook_def)
  have days: "daysInMonth 2023 7 = 31"
    by (simp add: daysInMonth_def)
  have h7: "\<forall>d. ?g d = ?g (referenceActiveDate (activeDateManagerOf ?hook ?state ?edit)) \<longrightarrow>
              ?g (setMonth (UseField.utils ?hook) d
                    (getMonth (UseField.utils ?hook) (DateTime 2023 7 15 0 0 0))) =
              ?g (referenceActiveDate (activeDateManagerOf ?hook ?state ?edit))"
    unfolding ref adapter
  proof (intro allI impI)
    fix d
    assume "?g d = (2023, 15, 10, 30, 0)"
    then show "?g (setMonth demoUtils d (getMonth demoUtils (DateTime 2023 7 15 0 0 0))) =
                 (2023, 15, 10, 30, 0)"
      by (cases d) (simp_all add: demoUtils_def days)
  qed
  have h8: "\<forall>d. ?g d = ?g (referenceActiveDate (activeDateManagerOf ?hook ?state ?edit)) \<longrightarrow>
              getMonth (UseField.utils ?hook)
                (setMonth (UseField.utils ?hook) d
                   (getMonth (UseField.utils ?hook) (DateTime 2023 7 15 0 0 0))) =
              getMonth (UseField.utils ?hook) (DateTime 2023 7 15 0 0 0)"
    unfolding ref adapter
  proof (intro allI impI)
    fix d
    assume "?g d = (2023, 15, 10, 30, 0)"
    then show "getMonth demoUtils
                 (setMonth demoUtils d (getMonth demoUtils (DateTime 2023 7 15 0 0 0))) =
               getMonth demoUtils (DateTime 2023 7 15 0 0 0)"
      by (cases d) (simp_all add: demoUtils_def)
  qed
  have new: "\<And>x. fst (getNewValueFromNewActiveDate (activeDateManagerOf ?hook ?state ?edit) x) = x"
    by (simp add: activeDateManagerOf_def demoHook_def demoFieldValueManager_def)
  have col: "snd (collapseSelection (Some ?indexes) ?state) = []"
    by (simp add: collapseSelection_def)
  have month: "getMonth (UseField.utils ?hook) (DateTime 2023 7 15 0 0 0) = 7"
    by (simp add: adapter demoUtils_def)
  have getter: "getMonth (UseField.utils ?hook) = demoGetMonth"
    by (simp add: adapter demoUtils_def)
  from month_edit_keeps_components_kept_by_setMonth [OF h1 h2 h3 h4 h5 h6 h7 h8]
  show ?thesis unfolding new col ref month unfolding getter by auto
qed

text \<open>
  Whatever the adapter, the step of the merge for a meridiem section returns the date it
  was given: its callback names the half of the day in which that date already lies.
\<close>

lemma meridiem_step_keeps_date:
  "applySectionValueToDate adapter mergedDate Meridiem getNumericSectionValue
     (\<lambda>_. if getHours adapter mergedDate < 12 then ''AM'' else ''PM'') = mergedDate"
  by (simp add: applySectionValueToDate_def Let_def)

text \<open>
  C2, at the input where the code departs from it. The meridiem of 10:30 (AM) is cleared
  and \<^verbatim>\<open>PM\<close> is typed. The candidate date parsed from the sections is 22:30, and the
  meridiem section is the only section marked as edited, but the published date is 10:30:
  the meridiem callback reads the hour of the date being merged and not the hour of the
  candidate date, so the step for a meridiem section never changes the date.
\<close>

theorem meridiem_edit_keeps_reference_half_day:
  "parseActiveDateSections (demoHook ''hh:mm aa'')
     (editedActiveDateSections (demoHook ''hh:mm aa'')
        (demoStateAfterClear ''hh:mm aa'' (DateTime 2024 6 15 10 30 0) 2)
        \<lparr>startIndex = 2, endIndex = 2\<rparr> (demoEdit (demoSection Meridiem ''aa'' []) ''PM''))
     = Some (DateTime 2024 6 15 22 30 0) \<and>
   map (\<lambda>section. (dateSectionName section, TSection.value section, edited section))
     (editedActiveDateSections (demoHook ''hh:mm aa'')
        (demoStateAfterClear ''hh:mm aa'' (DateTime 2024 6 15 10 30 0) 2)
        \<lparr>startIndex = 2, endIndex = 2\<rparr> (demoEdit (demoSection Meridiem ''aa'' []) ''PM''))
     = [(Hours, ''10'', False), (Minutes, ''30'', False), (Meridiem, ''PM'', True)] \<and>
   map_sum id snd
     (updateSectionValue (demoHook ''hh:mm aa'')
        (demoStateAfterClear ''hh:mm aa'' (DateTime 2024 6 15 10 30 0) 2) (SelectedIndex 2)
        (demoEdit (demoSection Meridiem ''aa'' []) ''PM''))
     = Inr [OnChange (Some (DateTime 2024 6 15 10 30 0))]"
  by code_simp

subsection \<open>Day-clamp recovery\<close>

lemma clampDaySection_update:
  "UseField.utils (hook\<lparr>clampDaySection := clamp\<rparr>) = UseField.utils hook"
  "fieldValueManager (hook\<lparr>clampDaySection := clamp\<rparr>) = fieldValueManager hook"
  "setSectionValue (hook\<lparr>clampDaySection := clamp\<rparr>) = setSectionValue hook"
  "publishValue (hook\<lparr>clampDaySection := clamp\<rparr>) = publishValue hook"
  "getSectionBoundaries (hook\<lparr>clampDaySection := clamp\<rparr>) = getSectionBoundaries hook"
  "editedActiveDateSections (hook\<lparr>clampDaySection := clamp\<rparr>) =
     editedActiveDateSections hook"
  by (simp_all add: fun_eq_iff setSectionValue_def sectionAt_def writeSection_def
        publishValue_def editedActiveDateSections_def editedSections_def)

lemma parseActiveDateSections_direct:
  assumes "\<not> shouldClampDay (UseField.utils hook)
              (parse (UseField.utils hook)
                 (createDateStrFromSections hook activeDateSections False)
                 (UseField.format hook))
              activeDateSections"
  shows "parseActiveDateSections (hook\<lparr>clampDaySection := clamp\<rparr>) activeDateSections =
           parse (UseField.utils hook)
             (createDateStrFromSections hook activeDateSections False) (UseField.format hook)"
  using assms by (simp add: parseActiveDateSections_def Let_def)

text \<open>
  C3. In the branch for an active date that is not valid, with a selection that denotes a
  section: when the direct parse of the sections of the active date is valid, or one of
  these sections is empty, or none of them is a day section, the outcome does not depend on
  \<^verbatim>\<open>clampDaySection\<close>, which is not consulted; when the direct parse is not valid, every
  section holds text and a day section is among them, and the parse of the sections that
  \<^verbatim>\<open>clampDaySection\<close> returns is valid, that date is merged into the reference date and
  the merged value is published.
\<close>

theorem day_clamp_recovery:
  fixes hook :: "('date, 'value, 'z TSection_scheme, 'boundaries) UseField"
    and state params indexes
  defines "activeDateSections \<equiv> editedActiveDateSections hook state indexes params"
  defines "directDate \<equiv>
             parse (UseField.utils hook)
               (createDateStrFromSections hook activeDateSections False) (UseField.format hook)"
  assumes invalidActiveDate:
      "activeDate (activeDateManagerOf hook state params) = None \<or>
       \<not> isValid (UseField.utils hook) (activeDate (activeDateManagerOf hook state params))"
    and selection: "selectedSectionIndexes selectedSections state = Some indexes"
    and inRange: "0 \<le> startIndex indexes" "startIndex indexes < int (length (sections state))"
  shows "(\<not> shouldClampDay (UseField.utils hook) directDate activeDateSections \<longrightarrow>
            updateSectionValue (hook\<lparr>clampDaySection := clamp\<rparr>) state selectedSections params =
            updateSectionValue hook state selectedSections params) \<and>
         (shouldClampDay (UseField.utils hook) directDate activeDateSections \<and>
          clampDaySection hook (UseField.utils hook) activeDateSections
            (getSectionBoundaries hook (UseField.utils hook)) (UseField.format hook) =
            Some cleanSections \<and>
          parse (UseField.utils hook) (createDateStrFromSections hook cleanSections False)
            (UseField.format hook) = Some recovered \<and>
          isValid (UseField.utils hook) (Some recovered) \<longrightarrow>
            (\<exists>state'.
               updateSectionValue hook state selectedSections params =
                 Inr (state',
                      snd (collapseSelection (Some indexes) state) @
                        [OnChange
                           (fst (getNewValueFromNewActiveDate
                                   (activeDateManagerOf hook state params)
                                   (Some (mergeDateIntoReferenceDate (UseField.utils hook)
                                            (referenceActiveDate
                                               (activeDateManagerOf hook state params))
                                            recovered activeDateSections))))])))"
proof (intro conjI impI)
  assume noClamp: "\<not> shouldClampDay (UseField.utils hook) directDate activeDateSections"
  let ?hook' = "hook\<lparr>clampDaySection := clamp\<rparr>"
  have same: "parseActiveDateSections ?hook' activeDateSections =
              parseActiveDateSections hook activeDateSections"
    using noClamp parseActiveDateSections_direct [of hook activeDateSections clamp]
      parseActiveDateSections_direct [of hook activeDateSections "clampDaySection hook"]
    by (simp add: directDate_def)
  have inv': "activeDate (activeDateManagerOf ?hook' state params) = None \<or>
       \<not> isValid (UseField.utils ?hook') (activeDate (activeDateManagerOf ?hook' state params))"
    using invalidActiveDate by (simp add: activeDateManagerOf_def)
  show "updateSectionValue ?hook' state selectedSections params =
        updateSectionValue hook state selectedSections params"
  proof (cases "parseActiveDateSections hook activeDateSections = None \<or>
                \<not> isValid (UseField.utils hook) (parseActiveDateSections hook activeDateSections)")
    case True
    then have t': "parseActiveDateSections ?hook'
                     (editedActiveDateSections ?hook' state indexes params) = None \<or>
       \<not> isValid (UseField.utils ?hook')
           (parseActiveDateSections ?hook' (editedActiveDateSections ?hook' state indexes params))"
      using same by (simp add: clampDaySection_update activeDateSections_def)
    from True have t: "parseActiveDateSections hook
                     (editedActiveDateSections hook state indexes params) = None \<or>
       \<not> isValid (UseField.utils hook)
           (parseActiveDateSections hook (editedActiveDateSections hook state indexes params))"
      by (simp add: activeDateSections_def)
    show ?thesis
      unfolding updateSectionValue_not_merged [OF inv' selection inRange t']
        updateSectionValue_not_merged [OF invalidActiveDate selection inRange t]
      using same
      by (simp add: clampDaySection_update activeDateSections_def activeDateManagerOf_def
            editedSections_def)
  next
    case False
    then obtain d where d: "parseActiveDateSections hook activeDateSections = Some d"
      "isValid (UseField.utils hook) (Some d)" by auto
    then have d': "parseActiveDateSections ?hook'
                     (editedActiveDateSections ?hook' state indexes params) = Some d"
      "isValid (UseField.utils ?hook') (Some d)"
      using same by (simp_all add: clampDaySection_update activeDateSections_def)
    show ?thesis
      unfolding updateSectionValue_merged [OF inv' selection inRange d']
        updateSectionValue_merged
          [OF invalidActiveDate selection inRange d [unfolded activeDateSections_def]]
      by (simp add: clampDaySection_update activeDateManagerOf_def)
  qed
next
  assume a: "shouldClampDay (UseField.utils hook) directDate activeDateSections \<and>
          clampDaySection hook (UseField.utils hook) activeDateSections
            (getSectionBoundaries hook (UseField.utils hook)) (UseField.format hook) =
            Some cleanSections \<and>
          parse (UseField.utils hook) (createDateStrFromSections hook cleanSections False)
            (UseField.format hook) = Some recovered \<and>
          isValid (UseField.utils hook) (Some recovered)"
  then have p: "parseActiveDateSections hook (editedActiveDateSections hook state indexes params)
                  = Some recovered"
    by (simp add: parseActiveDateSections_def Let_def directDate_def activeDateSections_def)
  from a have v: "isValid (UseField.utils hook) (Some recovered)" by simp
  show "\<exists>state'.
               updateSectionValue hook state selectedSections params =
                 Inr (state',
                      snd (collapseSelection (Some indexes) state) @
                        [OnChange
                           (fst (getNewValueFromNewActiveDate
                                   (activeDateManagerOf hook state params)
                                   (Some (mergeDateIntoReferenceDate (UseField.utils hook)
                                            (referenceActiveDate
                                               (activeDateManagerOf hook state params))
                                            recovered activeDateSections))))])"
    unfolding updateSectionValue_merged [OF invalidActiveDate selection inRange p v]
    by (simp add: publishValue_def Let_def activeDateSections_def split: prod.splits)
qed

text \<open>
  With month 02 and year 2023 typed, the day 31 is typed: the direct parse fails, the
  recovery puts the day to 28, and 28 February 2023 is published (at the time of day of the
  reference date). With the year still empty there is no recovery.
\<close>

theorem day_clamp_recovery_witness:
  "(\<exists>state'.
      updateSectionValue (demoHook ''MM/dd/yyyy'')
        (demoStateTyping ''MM/dd/yyyy'' [''02'', [], ''2023''] (DateTime 2024 6 15 10 0 0))
        (SelectedIndex 1) (demoEdit (demoSection Day ''dd'' ''/'') ''31'')
        = Inr (state', [OnChange (Some (DateTime 2023 2 28 10 0 0))])) \<and>
   updateSectionValue ((demoHook ''MM/dd/yyyy'')\<lparr>clampDaySection := (\<lambda>_ _ _ _. None)\<rparr>)
     (demoStateTyping ''MM/dd/yyyy'' [''02'', [], []] (DateTime 2024 6 15 10 0 0))
     (SelectedIndex 1) (demoEdit (demoSection Day ''dd'' ''/'') ''31'') =
   updateSectionValue (demoHook ''MM/dd/yyyy'')
     (demoStateTyping ''MM/dd/yyyy'' [''02'', [], []] (DateTime 2024 6 15 10 0 0))
     (SelectedIndex 1) (demoEdit (demoSection Day ''dd'' ''/'') ''31'')"
proof
  let ?hook = "demoHook ''MM/dd/yyyy''"
  let ?state = "demoStateTyping ''MM/dd/yyyy'' [''02'', [], ''2023''] (DateTime 2024 6 15 10 0 0)"
  let ?edit = "demoEdit (demoSection Day ''dd'' ''/'') ''31''"
  let ?indexes = "\<lparr>startIndex = 1, endIndex = 1\<rparr>"
  let ?sections = "editedActiveDateSections ?hook ?state ?indexes ?edit"
  let ?clean = "?sections[1 := (?sections ! 1)\<lparr>TSection.value := ''28''\<rparr>]"
  have h1: "activeDate (activeDateManagerOf ?hook ?state ?edit) = None \<or>
            \<not> isValid (UseField.utils ?hook) (activeDate (activeDateManagerOf ?hook ?state ?edit))"
    by code_simp
  have h2: "selectedSectionIndexes (SelectedIndex 1) ?state = Some ?indexes"
    by code_simp
  have h3: "0 \<le> startIndex ?indexes" "startIndex ?indexes < int (length (sections ?state))"
    by code_simp+
  have texts: "map TSection.value ?sections = [''02'', ''31'', ''2023'']"
    by code_simp
  have direct: "parse (UseField.utils ?hook) (createDateStrFromSections ?hook ?sections False)
                  (UseField.format ?hook) = Some InvalidDate"
    by code_simp
  have c1: "shouldClampDay (UseField.utils ?hook)
              (parse (UseField.utils ?hook) (createDateStrFromSections ?hook ?sections False)
                 (UseField.format ?hook)) ?sections"
    by code_simp
  have c2: "clampDaySection ?hook (UseField.utils ?hook) ?sections
              (getSectionBoundaries ?hook (UseField.utils ?hook)) (UseField.format ?hook)
            = Some ?clean"
    by code_simp
  have c3: "parse (UseField.utils ?hook) (createDateStrFromSections ?hook ?clean False)
              (UseField.format ?hook) = Some (DateTime 2023 2 28 0 0 0)"
    by code_simp
  have c4: "isValid (UseField.utils ?hook) (Some (DateTime 2023 2 28 0 0 0))"
    by code_simp
  have merged: "fst (getNewValueFromNewActiveDate (activeDateManagerOf ?hook ?state ?edit)
                  (Some (mergeDateIntoReferenceDate (UseField.utils ?hook)
                           (referenceActiveDate (activeDateManagerOf ?hook ?state ?edit))
                           (DateTime 2023 2 28 0 0 0) ?sections)))
                = Some (DateTime 2023 2 28 10 0 0)"
    by code_simp
  have col: "snd (collapseSelection (Some ?indexes) ?state) = []"
    by (simp add: collapseSelection_def)
  from day_clamp_recovery [OF h1 h2 h3, THEN conjunct2, rule_format,
      of ?clean "DateTime 2023 2 28 0 0 0"] c1 c2 c3 c4
  show "\<exists>state'. updateSectionValue ?hook ?state (SelectedIndex 1) ?edit
          = Inr (state', [OnChange (Some (DateTime 2023 2 28 10 0 0))])"
    unfolding merged col by simp
next
  let ?hook = "demoHook ''MM/dd/yyyy''"
  let ?state = "demoStateTyping ''MM/dd/yyyy'' [''02'', [], []] (DateTime 2024 6 15 10 0 0)"
  let ?edit = "demoEdit (demoSection Day ''dd'' ''/'') ''31''"
  let ?indexes = "\<lparr>startIndex = 1, endIndex = 1\<rparr>"
  let ?sections = "editedActiveDateSections ?hook ?state ?indexes ?edit"
  have h1: "activeDate (activeDateManagerOf ?hook ?state ?edit) = None \<or>
            \<not> isValid (UseField.utils ?hook) (activeDate (activeDateManagerOf ?hook ?state ?edit))"
    by code_simp
  have h2: "selectedSectionIndexes (SelectedIndex 1) ?state = Some ?indexes"
    by code_simp
  have h3: "0 \<le> startIndex ?indexes" "startIndex ?indexes < int (length (sections ?state))"
    by code_simp+
  have n: "\<not> shouldClampDay (UseField.utils ?hook)
              (parse (UseField.utils ?hook) (createDateStrFromSections ?hook ?sections False)
                 (UseField.format ?hook)) ?sections"
    by code_simp
  from day_clamp_recovery [OF h1 h2 h3, THEN conjunct1, rule_format, of "\<lambda>_ _ _ _. None"] n
  show "updateSectionValue (?hook\<lparr>clampDaySection := (\<lambda>_ _ _ _. None)\<rparr>) ?state
          (SelectedIndex 1) ?edit
        = updateSectionValue ?hook ?state (SelectedIndex 1) ?edit"
    by simp
qed

subsection \<open>Edits that leave the date invalid\<close>

text \<open>
  C4. In the branch for an active date that is not valid, with a selection that denotes a
  section, when the candidate date (after the recovery, if any) is null or not valid, the
  edit calls \<^verbatim>\<open>onChange\<close> for no value, so that nothing is published and the value seen
  from outside stays what it was; the state keeps the sections with the edited text, and
  its value and reference value are those that the active date manager computes from the
  candidate date, null or not.
\<close>

theorem invalid_candidate_not_published:
  fixes hook :: "('date, 'value, 'z TSection_scheme, 'boundaries) UseField"
  assumes invalidActiveDate:
      "activeDate (activeDateManagerOf hook state params) = None \<or>
       \<not> isValid (UseField.utils hook) (activeDate (activeDateManagerOf hook state params))"
    and selection: "selectedSectionIndexes selectedSections state = Some indexes"
    and inRange: "0 \<le> startIndex indexes" "startIndex indexes < int (length (sections state))"
    and invalidCandidate:
      "parseActiveDateSections hook (editedActiveDateSections hook state indexes params) = None \<or>
       \<not> isValid (UseField.utils hook)
           (parseActiveDateSections hook (editedActiveDateSections hook state indexes params))"
  shows "\<exists>state' effects.
           updateSectionValue hook state selectedSections params = Inr (state', effects) \<and>
           effects = snd (collapseSelection (Some indexes) state) \<and>
           (\<forall>v. OnChange v \<notin> set effects) \<and>
           sections state' = editedSections hook state indexes params \<and>
           UseFieldState.value state' =
             fst (getNewValueFromNewActiveDate (activeDateManagerOf hook state params)
                    (parseActiveDateSections hook
                       (editedActiveDateSections hook state indexes params))) \<and>
           referenceValue state' =
             snd (getNewValueFromNewActiveDate (activeDateManagerOf hook state params)
                    (parseActiveDateSections hook
                       (editedActiveDateSections hook state indexes params)))"
  unfolding updateSectionValue_not_merged [OF assms]
  by (simp add: collapseSelection_no_change)

text \<open>
  The month of 15 March 2023 is cleared and \<^verbatim>\<open>1\<close> is typed: the text \<^verbatim>\<open>1/15/2023\<close> does
  not parse, no effect is produced, and the state keeps the text and the invalid date.
\<close>

theorem invalid_candidate_not_published_witness:
  "\<exists>state'.
     updateSectionValue (demoHook ''MM/dd/yyyy'')
       (demoStateAfterClear ''MM/dd/yyyy'' (DateTime 2023 3 15 10 30 0) 0) (SelectedIndex 0)
       (demoEdit (demoSection Month ''MM'' ''/'') ''1'') = Inr (state', []) \<and>
     map TSection.value (sections state') = [''1'', ''15'', ''2023''] \<and>
     UseFieldState.value state' = Some InvalidDate"
proof -
  let ?hook = "demoHook ''MM/dd/yyyy''"
  let ?state = "demoStateAfterClear ''MM/dd/yyyy'' (DateTime 2023 3 15 10 30 0) 0"
  let ?edit = "demoEdit (demoSection Month ''MM'' ''/'') ''1''"
  let ?indexes = "\<lparr>startIndex = 0, endIndex = 0\<rparr>"
  have h1: "activeDate (activeDateManagerOf ?hook ?state ?edit) = None \<or>
            \<not> isValid (UseField.utils ?hook) (activeDate (activeDateManagerOf ?hook ?state ?edit))"
    by code_simp
  have h2: "selectedSectionIndexes (SelectedIndex 0) ?state = Some ?indexes"
    by code_simp
  have h3: "0 \<le> startIndex ?indexes" "startIndex ?indexes < int (length (sections ?state))"
    by code_simp+
  have parsed: "parseActiveDateSections ?hook (editedActiveDateSections ?hook ?state ?indexes ?edit)
                  = Some InvalidDate"
    by code_simp
  have h4: "parseActiveDateSections ?hook (editedActiveDateSections ?hook ?state ?indexes ?edit)
              = None \<or>
            \<not> isValid (UseField.utils ?hook)
                (parseActiveDateSections ?hook
                   (editedActiveDateSections ?hook ?state ?indexes ?edit))"
    by code_simp
  have texts: "map TSection.value (editedSections ?hook ?state ?indexes ?edit)
                 = [''1'', ''15'', ''2023'']"
    by code_simp
  have new: "\<And>x. fst (getNewValueFromNewActiveDate (activeDateManagerOf ?hook ?state ?edit) x) = x"
    by (simp add: activeDateManagerOf_def demoHook_def demoFieldValueManager_def)
  have col: "snd (collapseSelection (Some ?indexes) ?state) = []"
    by (simp add: collapseSelection_def)
  from invalid_candidate_not_published [OF h1 h2 h3 h4]
  show ?thesis unfolding new col parsed using texts by auto
qed

subsection \<open>Publications\<close>

text \<open>
  C8. \<^verbatim>\<open>clearValue\<close> sets the value to the empty value of the value manager, leaves the
  reference value as it was, calls \<^verbatim>\<open>onChange\<close> with the empty value and rebuilds the
  sections from it; and whenever \<^verbatim>\<open>updateSectionValue\<close> calls \<^verbatim>\<open>onChange\<close> with a value,
  that value is the value of the new state and the sections of the new state are rebuilt
  from it.
\<close>

theorem clearValue_and_publications:
  fixes hook :: "('date, 'value, 'z TSection_scheme, 'boundaries) UseField"
  shows "UseFieldState.value (fst (clearValue hook state)) = emptyValue (valueManager hook) \<and>
    referenceValue (fst (clearValue hook state)) = referenceValue state \<and>
    snd (clearValue hook state) = [OnChange (emptyValue (valueManager hook))] \<and>
    sections (fst (clearValue hook state)) =
      getSectionsFromValue (fieldValueManager hook) (UseField.utils hook)
        (Some (sections state)) (emptyValue (valueManager hook)) (UseField.format hook) \<and>
    (\<forall>state' effects v.
       updateSectionValue hook state selectedSections params = Inr (state', effects) \<and>
       OnChange v \<in> set effects \<longrightarrow>
       UseFieldState.value state' = v \<and>
       sections state' =
         getSectionsFromValue (fieldValueManager hook) (UseField.utils hook)
           (Some (sections state)) v (UseField.format hook))"
  using updateSectionValue_published [of hook state selectedSections params]
  by (auto simp: clearValue_def publishValue_def Let_def)

theorem clearValue_and_publications_witness:
  "\<exists>state'.
     updateSectionValue (demoHook ''MM/dd/yyyy'')
       (demoStateAfterClear ''MM/dd/yyyy'' (DateTime 2023 3 15 10 30 0) 0) (SelectedIndex 0)
       (demoEdit (demoSection Month ''MM'' ''/'') ''07'')
       = Inr (state', [OnChange (Some (DateTime 2023 7 15 10 30 0))]) \<and>
     UseFieldState.value state' = Some (DateTime 2023 7 15 10 30 0) \<and>
     map TSection.value (sections state') = [''07'', ''15'', ''2023'']"
proof -
  let ?hook = "demoHook ''MM/dd/yyyy''"
  let ?state = "demoStateAfterClear ''MM/dd/yyyy'' (DateTime 2023 3 15 10 30 0) 0"
  let ?edit = "demoEdit (demoSection Month ''MM'' ''/'') ''07''"
  have "map_sum id snd (updateSectionValue ?hook ?state (SelectedIndex 0) ?edit)
          = Inr [OnChange (Some (DateTime 2023 7 15 10 30 0))]"
    by code_simp
  then obtain state' where run:
    "updateSectionValue ?hook ?state (SelectedIndex 0) ?edit
       = Inr (state', [OnChange (Some (DateTime 2023 7 15 10 30 0))])"
    by (cases "updateSectionValue ?hook ?state (SelectedIndex 0) ?edit") auto
  have rebuilt:
    "map TSection.value
       (getSectionsFromValue (fieldValueManager ?hook) (UseField.utils ?hook)
          (Some (sections ?state)) (Some (DateTime 2023 7 15 10 30 0)) (UseField.format ?hook))
     = [''07'', ''15'', ''2023'']"
    by code_simp
  from clearValue_and_publications [of ?hook ?state "SelectedIndex 0" ?edit] run
  have "UseFieldState.value state' = Some (DateTime 2023 7 15 10 30 0) \<and>
        sections state' =
          getSectionsFromValue (fieldValueManager ?hook) (UseField.utils ?hook)
            (Some (sections ?state)) (Some (DateTime 2023 7 15 10 30 0)) (UseField.format ?hook)"
    by simp
  with rebuilt run show ?thesis by (intro exI [of _ state']) simp
qed

subsection \<open>The selection\<close>

text \<open>
  C9. When the active date is null or not valid, \<^verbatim>\<open>updateSectionValue\<close> fails on the
  access to \<^verbatim>\<open>selectedSectionIndexes!.startIndex\<close> exactly when there is no selection:
  the branch gets past the access only if a selection exists.
\<close>

theorem invalid_date_branch_needs_selection:
  fixes hook :: "('date, 'value, 'z TSection_scheme, 'boundaries) UseField"
  assumes "activeDate (activeDateManagerOf hook state params) = None \<or>
           \<not> isValid (UseField.utils hook) (activeDate (activeDateManagerOf hook state params))"
  shows "(updateSectionValue hook state selectedSections params = Inl NullPropertyAccess) =
         (selectedSectionIndexes selectedSections state = None)"
proof (cases "selectedSectionIndexes selectedSections state")
  case None
  then show ?thesis
    using assms updateSectionValue_no_selection [of hook state params selectedSections]
    by (simp add: activeDateManagerOf_def)
next
  case (Some indexes)
  have "updateSectionValue hook state selectedSections params \<noteq> Inl NullPropertyAccess"
    using assms Some
    by (auto simp: updateSectionValue_invalid_date activeDateManagerOf_def Let_def
          split: sum.splits prod.splits option.splits)
  with Some show ?thesis by simp
qed

theorem invalid_date_branch_needs_selection_witness:
  "updateSectionValue (demoHook ''MM/dd/yyyy'')
     (demoStateAfterClear ''MM/dd/yyyy'' (DateTime 2023 3 15 10 30 0) 0) SelectedNull
     (demoEdit (demoSection Month ''MM'' ''/'') ''07'') = Inl NullPropertyAccess \<and>
   updateSectionValue (demoHook ''MM/dd/yyyy'')
     (demoStateAfterClear ''MM/dd/yyyy'' (DateTime 2023 3 15 10 30 0) 0) (SelectedIndex 0)
     (demoEdit (demoSection Month ''MM'' ''/'') ''07'') \<noteq> Inl NullPropertyAccess"
proof -
  let ?hook = "demoHook ''MM/dd/yyyy''"
  let ?state = "demoStateAfterClear ''MM/dd/yyyy'' (DateTime 2023 3 15 10 30 0) 0"
  let ?edit = "demoEdit (demoSection Month ''MM'' ''/'') ''07''"
  have h1: "activeDate (activeDateManagerOf ?hook ?state ?edit) = None \<or>
            \<not> isValid (UseField.utils ?hook) (activeDate (activeDateManagerOf ?hook ?state ?edit))"
    by code_simp
  have none: "selectedSectionIndexes SelectedNull ?state = None"
    by code_simp
  have some: "selectedSectionIndexes (SelectedIndex 0) ?state \<noteq> None"
    by code_simp
  from invalid_date_branch_needs_selection [OF h1, of SelectedNull]
    invalid_date_branch_needs_selection [OF h1, of "SelectedIndex 0"] none some
  show ?thesis by simp
qed

subsection \<open>The fallback string\<close>

text \<open>
  C10. \<^verbatim>\<open>tempValueStrAndroid\<close> is null after \<^verbatim>\<open>clearValue\<close> and after every
  \<^verbatim>\<open>updateSectionValue\<close> that returns (the two publishing paths and the path that
  publishes nothing); \<^verbatim>\<open>setTempAndroidValueStr\<close> stores its argument; the two effects
  that resynchronize the state, \<^verbatim>\<open>setSelectedSections\<close> and \<^verbatim>\<open>clearActiveSection\<close> leave
  the field as it was, and it is null in the initial state, so no other operation makes it
  non-null.
\<close>

theorem tempValueStrAndroid_updates:
  fixes hook :: "('date, 'value, 'z TSection_scheme, 'boundaries) UseField"
  shows "tempValueStrAndroid (fst (clearValue hook state)) = None \<and>
    (\<forall>state' effects.
       updateSectionValue hook state selectedSections params = Inr (state', effects) \<longrightarrow>
       tempValueStrAndroid state' = None) \<and>
    tempValueStrAndroid (setTempAndroidValueStr text state) = Some text \<and>
    tempValueStrAndroid (valueEffect hook state newValue) = tempValueStrAndroid state \<and>
    (\<forall>state'. formatEffect hook state = Inr state' \<longrightarrow>
       tempValueStrAndroid state' = tempValueStrAndroid state) \<and>
    tempValueStrAndroid (fst (setSelectedSections newSelectedSections state)) =
      tempValueStrAndroid state \<and>
    (\<forall>state' effects.
       clearActiveSection hook state selectedSections = Inr (state', effects) \<longrightarrow>
       tempValueStrAndroid state' = tempValueStrAndroid state) \<and>
    (\<forall>state'. initialState hook firstValue = Inr state' \<longrightarrow>
       tempValueStrAndroid state' = None)"
proof (intro conjI allI impI)
  show "tempValueStrAndroid (fst (clearValue hook state)) = None"
    by (simp add: clearValue_def publishValue_def Let_def)
  show "tempValueStrAndroid (setTempAndroidValueStr text state) = Some text"
    by (simp add: setTempAndroidValueStr_def)
  show "tempValueStrAndroid (valueEffect hook state newValue) = tempValueStrAndroid state"
    by (simp add: valueEffect_def Let_def)
  show "tempValueStrAndroid (fst (setSelectedSections newSelectedSections state)) =
          tempValueStrAndroid state"
    by (simp add: setSelectedSections_def)
next
  fix state' effects
  assume "updateSectionValue hook state selectedSections params = Inr (state', effects)"
  then show "tempValueStrAndroid state' = None" by (rule updateSectionValue_temp)
next
  fix state'
  assume "formatEffect hook state = Inr state'"
  then show "tempValueStrAndroid state' = tempValueStrAndroid state"
    by (auto simp: formatEffect_def Let_def split: if_splits)
next
  fix state' effects
  assume "clearActiveSection hook state selectedSections = Inr (state', effects)"
  then show "tempValueStrAndroid state' = tempValueStrAndroid state"
    by (auto simp: clearActiveSection_def Let_def
          split: option.splits if_splits sum.splits prod.splits)
next
  fix state'
  assume "initialState hook firstValue = Inr state'"
  then show "tempValueStrAndroid state' = None"
    by (auto simp: initialState_def Let_def split: if_splits)
qed

theorem tempValueStrAndroid_updates_witness:
  "tempValueStrAndroid (demoStateAfterClear ''MM/dd/yyyy'' (DateTime 2023 3 15 10 30 0) 0)
     = Some ''pending'' \<and>
   (\<exists>state' effects.
      updateSectionValue (demoHook ''MM/dd/yyyy'')
        (demoStateAfterClear ''MM/dd/yyyy'' (DateTime 2023 3 15 10 30 0) 0) (SelectedIndex 0)
        (demoEdit (demoSection Month ''MM'' ''/'') ''1'') = Inr (state', effects) \<and>
      tempValueStrAndroid state' = None) \<and>
   (\<exists>state'.
      formatEffect (demoHook ''MM/dd/yyyy'')
        (demoStateAfterClear ''MM/dd/yyyy'' (DateTime 2023 3 15 10 30 0) 0) = Inr state' \<and>
      tempValueStrAndroid state' = Some ''pending'') \<and>
   (\<exists>state' effects.
      clearActiveSection (demoHook ''MM/dd/yyyy'')
        (demoStateAfterClear ''MM/dd/yyyy'' (DateTime 2023 3 15 10 30 0) 0) (SelectedIndex 0)
        = Inr (state', effects) \<and>
      tempValueStrAndroid state' = Some ''pending'')"
proof -
  let ?hook = "demoHook ''MM/dd/yyyy''"
  let ?state = "demoStateAfterClear ''MM/dd/yyyy'' (DateTime 2023 3 15 10 30 0) 0"
  let ?edit = "demoEdit (demoSection Month ''MM'' ''/'') ''1''"
  note t = tempValueStrAndroid_updates [of ?hook ?state "SelectedIndex 0" ?edit]
  have "case updateSectionValue ?hook ?state (SelectedIndex 0) ?edit of Inl e \<Rightarrow> False | Inr r \<Rightarrow> True"
    by code_simp
  then obtain u where u: "updateSectionValue ?hook ?state (SelectedIndex 0) ?edit = Inr u"
    by (cases "updateSectionValue ?hook ?state (SelectedIndex 0) ?edit") auto
  have "case formatEffect ?hook ?state of Inl e \<Rightarrow> False | Inr r \<Rightarrow> True"
    by code_simp
  then obtain f where f: "formatEffect ?hook ?state = Inr f"
    by (cases "formatEffect ?hook ?state") auto
  have "case clearActiveSection ?hook ?state (SelectedIndex 0) of Inl e \<Rightarrow> False | Inr r \<Rightarrow> True"
    by code_simp
  then obtain c where c: "clearActiveSection ?hook ?state (SelectedIndex 0) = Inr c"
    by (cases "clearActiveSection ?hook ?state (SelectedIndex 0)") auto
  have p: "tempValueStrAndroid ?state = Some ''pending''"
    by (simp add: demoStateAfterClear_def)
  from t u have 1: "tempValueStrAndroid (fst u) = None"
    by (cases u) simp
  from t f p have 2: "tempValueStrAndroid f = Some ''pending''"
    by simp
  from t c p have 3: "tempValueStrAndroid (fst c) = Some ''pending''"
    by (cases c) simp
  from p u 1 f 2 c 3 show ?thesis
    by (metis prod.collapse)
qed

end
